theory Spec2Isabelle
  imports Complex_Main
begin

section \<open>Values, exceptions and the command style of the handlers\<close>

text \<open>
  The bot is glue between an extraction engine, a chat transport and the file system.
  The handlers of \<^verbatim>\<open>Main_code.py\<close> are embedded as functions from a world to a
  result and a new world. A result is \<open>Inl e\<close> when the Python code raises \<open>e\<close> and
  \<open>Inr v\<close> when it returns \<open>v\<close>. Only subclasses of \<^verbatim>\<open>Exception\<close> are
  represented, since those are what \<^verbatim>\<open>except Exception\<close> catches.

  Text is a \<open>string\<close>: every character stands for one code point below 256. The
  rendered wording of a message to the user is not modelled; a message is a constructor
  that carries the values the source formats into it.
\<close>

datatype exn = PyExn string string

fun str_exn :: "exn \<Rightarrow> string" where
  "str_exn (PyExn cls m) = m"

text \<open>The values found in the engine's info dictionary.\<close>

datatype pyval = PNone | PInt int | PFloat rat | PStr string

fun truthy :: "pyval \<Rightarrow> bool" where
  "truthy PNone = False"
| "truthy (PInt n) = (n \<noteq> 0)"
| "truthy (PFloat x) = (x \<noteq> 0)"
| "truthy (PStr s) = (s \<noteq> [])"

fun num_of :: "pyval \<Rightarrow> rat option" where
  "num_of (PInt n) = Some (of_int n)"
| "num_of (PFloat x) = Some x"
| "num_of v = None"

type_synonym info = "string \<rightharpoonup> pyval"

text \<open>\<^verbatim>\<open>d.get(k)\<close> and \<^verbatim>\<open>d.get(k, default)\<close>.\<close>

definition dict_get :: "info \<Rightarrow> string \<Rightarrow> pyval" where
  "dict_get d k = (case d k of None \<Rightarrow> PNone | Some v \<Rightarrow> v)"

definition dict_get_default :: "info \<Rightarrow> string \<Rightarrow> pyval \<Rightarrow> pyval" where
  "dict_get_default d k dflt = (case d k of None \<Rightarrow> dflt | Some v \<Rightarrow> v)"

definition bind :: "('s \<Rightarrow> (exn + 'a) \<times> 's) \<Rightarrow> ('a \<Rightarrow> 's \<Rightarrow> (exn + 'b) \<times> 's) \<Rightarrow> 's \<Rightarrow> (exn + 'b) \<times> 's" where
  "bind m f s = (case m s of (Inl e, s') \<Rightarrow> (Inl e, s') | (Inr a, s') \<Rightarrow> f a s')"

definition ret :: "'a \<Rightarrow> 's \<Rightarrow> (exn + 'a) \<times> 's" where
  "ret a s = (Inr a, s)"

definition raise :: "exn \<Rightarrow> 's \<Rightarrow> (exn + 'a) \<times> 's" where
  "raise e s = (Inl e, s)"

text \<open>\<^verbatim>\<open>try: m  except Exception as e: h e\<close>.\<close>

definition try_except :: "('s \<Rightarrow> (exn + 'a) \<times> 's) \<Rightarrow> (exn \<Rightarrow> 's \<Rightarrow> (exn + 'a) \<times> 's) \<Rightarrow> 's \<Rightarrow> (exn + 'a) \<times> 's" where
  "try_except m h s = (case m s of (Inl e, s') \<Rightarrow> h e s' | (Inr a, s') \<Rightarrow> (Inr a, s'))"

text \<open>A pure computation that may raise, run inside a command.\<close>

definition lift :: "exn + 'a \<Rightarrow> 's \<Rightarrow> (exn + 'a) \<times> 's" where
  "lift r s = (r, s)"

section \<open>Configuration\<close>

text \<open>
  The module reads its configuration from the environment when it is imported:
  \<^verbatim>\<open>DOWNLOAD_PATH\<close>, \<^verbatim>\<open>MAX_FILE_SIZE_MB\<close> (already converted by \<^verbatim>\<open>int\<close>) and the
  raw text of \<^verbatim>\<open>ALLOWED_USERS\<close> (the empty string when the variable is unset).
\<close>

record config =
  DOWNLOAD_PATH :: string
  MAX_FILE_SIZE_MB :: int
  ALLOWED_USERS_env :: string

definition REGULAR_USER_LIMIT_MB :: rat where
  "REGULAR_USER_LIMIT_MB = 50"

definition PREMIUM_USER_LIMIT_MB :: rat where
  "PREMIUM_USER_LIMIT_MB = 2048"

text \<open>\<^verbatim>\<open>s.split(',')\<close>: never the empty list.\<close>

fun split_comma :: "string \<Rightarrow> string list" where
  "split_comma [] = [[]]"
| "split_comma (c # cs) =
     (if c = CHR '','' then [] # split_comma cs
      else (case split_comma cs of [] \<Rightarrow> [[c]] | p # ps \<Rightarrow> (c # p) # ps))"

definition ALLOWED_USERS :: "config \<Rightarrow> string list" where
  "ALLOWED_USERS cfg = split_comma (ALLOWED_USERS_env cfg)"

section \<open>The extraction engine's options\<close>

record ydl_opts =
  outtmpl :: string
  quiet :: bool
  no_warnings :: bool
  extract_flat :: bool
  user_agent :: string
  format :: string
  postprocessors :: "(string \<times> string \<times> string) list"
  merge_output_format :: "string option"
  progress_hooks :: "string list"

text \<open>\<^verbatim>\<open>os.path.join(a, b)\<close> for a relative \<open>b\<close>.\<close>

definition path_join :: "string \<Rightarrow> string \<Rightarrow> string" where
  "path_join a b =
     (if a = [] then b
      else if last a = CHR ''/'' then a @ b
      else a @ ''/'' @ b)"

definition get_yt_dlp_options :: "config \<Rightarrow> string \<Rightarrow> string \<Rightarrow> ydl_opts" where
  "get_yt_dlp_options cfg quality media_type =
     (let output_template = path_join (DOWNLOAD_PATH cfg) ''%(title)s.%(ext)s'';
          base_opts = \<lparr> outtmpl = output_template,
                        quiet = False,
                        no_warnings = False,
                        extract_flat = False,
                        user_agent = ''Mozilla/5.0 (Windows NT 10.0; Win64; x64) AppleWebKit/537.36'',
                        format = [],
                        postprocessors = [],
                        merge_output_format = None,
                        progress_hooks = [] \<rparr>
      in if media_type = ''audio'' then
           base_opts \<lparr> format := ''bestaudio/best'',
                       postprocessors := [(''FFmpegExtractAudio'', ''mp3'', ''320'')] \<rparr>
         else
           (let format_string =
                  (if quality = ''best'' then
                     ''bestvideo[ext=mp4]+bestaudio[ext=m4a]/best[ext=mp4]/best''
                   else if quality = ''1080p'' then
                     ''bestvideo[height<=1080][ext=mp4]+bestaudio[ext=m4a]/best[height<=1080][ext=mp4]/best''
                   else if quality = ''720p'' then
                     ''bestvideo[height<=720][ext=mp4]+bestaudio[ext=m4a]/best[height<=720][ext=mp4]/best''
                   else if quality = ''480p'' then
                     ''bestvideo[height<=480][ext=mp4]+bestaudio[ext=m4a]/best[height<=480][ext=mp4]/best''
                   else ''best[ext=mp4]/best'')
            in base_opts \<lparr> format := format_string,
                           merge_output_format := Some ''mp4'' \<rparr>))"

section \<open>Messages, transport calls and the world\<close>

text \<open>The two shapes of the dictionary \<^verbatim>\<open>download_media\<close> returns.\<close>

datatype dl_error =
    SizeExceeded rat int
  | ExnMessage string

record media_result =
  res_filepath :: string
  res_title :: pyval
  res_duration :: pyval
  res_thumbnail :: pyval
  res_uploader :: pyval
  res_description :: pyval
  res_filesize_mb :: pyval

datatype dl_result =
    Failure dl_error "rat option"
  | Success media_result

fun success :: "dl_result \<Rightarrow> bool" where
  "success (Failure e m) = False"
| "success (Success r) = True"

text \<open>
  The texts the bot sends. An inline keyboard is a list of rows of buttons, a button a
  pair of its label (without the emoji) and its callback data.
\<close>

type_synonym keyboard = "(string \<times> string) list list"

datatype bot_text =
    Welcome
  | HelpText int
  | SelectQuality
  | AudioModeEnabled
  | VideoModeEnabled string
  | QualitySet string
  | Uploading
  | UploadFailed string
  | FileExpired
  | PremiumRequired rat
  | Unauthorized
  | NoUrlFound
  | InvalidUrl
  | Processing string string string
  | DownloadFailed dl_error
  | DownloadComplete
  | FileTooLarge rat
  | LargeFileDetected rat
  | ErrorOccurred string
  | ErrorTryLater

record caption =
  cap_title :: pyval
  cap_uploader :: pyval
  cap_minutes :: int
  cap_seconds :: int
  cap_size_mb :: rat

text \<open>
  A call on the chat transport. A message is named by a number: the message a
  \<^verbatim>\<open>reply_text\<close> creates gets the position of that call in the trace.
\<close>

datatype action =
    ReplyText bot_text keyboard
  | EditText nat bot_text keyboard
  | DeleteMessage nat
  | SendChatAction int string
  | AnswerQuery
  | ReplyVideo string caption
  | ReplyAudio string caption pyval pyval

fun is_send :: "action \<Rightarrow> bool" where
  "is_send (ReplyVideo p c) = True"
| "is_send (ReplyAudio p c t u) = True"
| "is_send a = False"

datatype log_record =
    LogDownloadError string
  | LogRemoveError string
  | LogProcessingError string
  | LogUpdateError string

text \<open>Every call the program makes on something outside itself, in order.\<close>

datatype event =
    Probe string
  | Download string
  | Tg action
  | Remove string
  | Log log_record

record pending =
  pf_filepath :: string
  pf_file_size_mb :: rat
  pf_result :: media_result
  pf_media_type :: string

text \<open>\<^verbatim>\<open>context.user_data\<close>: a key that is absent is \<open>None\<close>.\<close>

record user_data =
  ud_quality :: "string option"
  ud_media_type :: "string option"
  ud_has_premium :: "bool option"
  ud_pending_file :: "pending option"

definition empty_user_data :: user_data where
  "empty_user_data =
     \<lparr> ud_quality = None, ud_media_type = None, ud_has_premium = None, ud_pending_file = None \<rparr>"

text \<open>
  The world: the files of the disk with their size in bytes, the transport library's
  \<^verbatim>\<open>user_data\<close> of every user, and the trace of the calls made so far.
\<close>

record world =
  fs :: "string \<rightharpoonup> nat"
  users :: "int \<Rightarrow> user_data"
  trace :: "event list"

text \<open>
  What the program cannot decide: the engine's answers, whether the transport accepts a
  call (by the position of the call in the trace and the call itself), and whether the
  operating system refuses to remove an existing file. \<open>hasattr_message\<close> is the value
  of \<^verbatim>\<open>hasattr(update, 'message')\<close>, which the transport library's \<^verbatim>\<open>Update\<close>
  class decides (it declares the attribute for every update, with \<open>None\<close> when the
  update is not a message).
\<close>

record environment =
  extract_info_probe :: "string \<Rightarrow> ydl_opts \<Rightarrow> exn + info"
  extract_info_download :: "string \<Rightarrow> ydl_opts \<Rightarrow> (string \<rightharpoonup> nat) \<Rightarrow> (exn + info) \<times> (string \<rightharpoonup> nat)"
  prepare_filename :: "info \<Rightarrow> exn + string"
  transport :: "nat \<Rightarrow> action \<Rightarrow> exn option"
  remove_refused :: "string \<Rightarrow> exn option"
  hasattr_message :: bool

definition emit :: "event \<Rightarrow> world \<Rightarrow> (exn + unit) \<times> world" where
  "emit ev w = (Inr (), w \<lparr> trace := trace w @ [ev] \<rparr>)"

definition tg :: "environment \<Rightarrow> action \<Rightarrow> world \<Rightarrow> (exn + unit) \<times> world" where
  "tg env a w =
     (case transport env (length (trace w)) a of
        None \<Rightarrow> (Inr (), w \<lparr> trace := trace w @ [Tg a] \<rparr>)
      | Some e \<Rightarrow> (Inl e, w \<lparr> trace := trace w @ [Tg a] \<rparr>))"

text \<open>\<^verbatim>\<open>update.message.reply_text\<close> returns the message it created.\<close>

definition reply_text :: "environment \<Rightarrow> bot_text \<Rightarrow> keyboard \<Rightarrow> world \<Rightarrow> (exn + nat) \<times> world" where
  "reply_text env t kb w = bind (tg env (ReplyText t kb)) (\<lambda>_. ret (length (trace w))) w"

section \<open>The file system\<close>

definition os_path_exists :: "string \<Rightarrow> world \<Rightarrow> bool" where
  "os_path_exists p w = (fs w p \<noteq> None)"

definition os_path_getsize :: "string \<Rightarrow> world \<Rightarrow> (exn + nat) \<times> world" where
  "os_path_getsize p w =
     (case fs w p of
        None \<Rightarrow> (Inl (PyExn ''FileNotFoundError'' p), w)
      | Some n \<Rightarrow> (Inr n, w))"

definition os_remove :: "environment \<Rightarrow> string \<Rightarrow> world \<Rightarrow> (exn + unit) \<times> world" where
  "os_remove env p w =
     (let w' = w \<lparr> trace := trace w @ [Remove p] \<rparr>
      in case fs w p of
           None \<Rightarrow> (Inl (PyExn ''FileNotFoundError'' p), w')
         | Some n \<Rightarrow>
             (case remove_refused env p of
                Some e \<Rightarrow> (Inl e, w')
              | None \<Rightarrow> (Inr (), w' \<lparr> fs := (fs w)(p := None) \<rparr>)))"

section \<open>MediaDownloader.download\_media\<close>

text \<open>
  \<^verbatim>\<open>filesize = info.get('filesize') or info.get('filesize_approx', 0)\<close>
\<close>

definition estimated_filesize :: "info \<Rightarrow> pyval" where
  "estimated_filesize i =
     (if truthy (dict_get i ''filesize'') then dict_get i ''filesize''
      else dict_get_default i ''filesize_approx'' (PInt 0))"

text \<open>
  \<^verbatim>\<open>filesize / (1024 * 1024)\<close>: a number is divided, anything else raises
  \<^verbatim>\<open>TypeError\<close>. The quotient is kept exact; it is only shown to the user.
\<close>

definition div_mb :: "pyval \<Rightarrow> exn + rat" where
  "div_mb v =
     (case num_of v of
        None \<Rightarrow> Inl (PyExn ''TypeError'' ''unsupported operand type(s) for /'')
      | Some x \<Rightarrow> Inr (x / (1024 * 1024)))"

text \<open>\<^verbatim>\<open>filesize > n\<close> for an integer \<open>n\<close>: exact on numbers, \<^verbatim>\<open>TypeError\<close> otherwise.\<close>

definition py_greater :: "pyval \<Rightarrow> int \<Rightarrow> exn + bool" where
  "py_greater v n =
     (case num_of v of
        None \<Rightarrow> Inl (PyExn ''TypeError'' ''> not supported between these instances'')
      | Some x \<Rightarrow> Inr (x > of_int n))"

text \<open>\<^verbatim>\<open>s.rsplit('.', 1)[0]\<close>: the text before the last dot, all of it without one.\<close>

fun rsplit_dot_head :: "string \<Rightarrow> string" where
  "rsplit_dot_head [] = []"
| "rsplit_dot_head (c # cs) =
     (if CHR ''.'' \<in> set cs then c # rsplit_dot_head cs
      else if c = CHR ''.'' then []
      else c # cs)"

text \<open>\<^verbatim>\<open>info.get('description', '')[:200]\<close>\<close>

definition description_prefix :: "info \<Rightarrow> exn + pyval" where
  "description_prefix i =
     (case dict_get_default i ''description'' (PStr []) of
        PStr s \<Rightarrow> Inr (PStr (take 200 s))
      | v \<Rightarrow> Inl (PyExn ''TypeError'' ''object is not subscriptable''))"

text \<open>The options, with the progress hook when a callback is given.\<close>

definition ydl_opts_for :: "config \<Rightarrow> string \<Rightarrow> string \<Rightarrow> string option \<Rightarrow> ydl_opts" where
  "ydl_opts_for cfg quality media_type progress_callback =
     (let ydl_opts = get_yt_dlp_options cfg quality media_type
      in case progress_callback of
           None \<Rightarrow> ydl_opts
         | Some cb \<Rightarrow> ydl_opts \<lparr> progress_hooks := [cb] \<rparr>)"

text \<open>
  The body of the \<^verbatim>\<open>try\<close> of \<^verbatim>\<open>download_media\<close>. The source stores the estimate
  in the probe's info under \<^verbatim>\<open>estimated_filesize_mb\<close> and then replaces \<^verbatim>\<open>info\<close> by the
  info of the download step, so the result reads that key from the second info.
\<close>

definition download_media_body ::
  "environment \<Rightarrow> config \<Rightarrow> string \<Rightarrow> string \<Rightarrow> string \<Rightarrow> string option \<Rightarrow> world \<Rightarrow> (exn + dl_result) \<times> world" where
  "download_media_body env cfg url quality media_type progress_callback =
     (let ydl_opts = ydl_opts_for cfg quality media_type progress_callback in
      bind (emit (Probe url)) (\<lambda>_.
      bind (lift (extract_info_probe env url ydl_opts)) (\<lambda>info.
      let filesize = estimated_filesize info in
      bind (lift (div_mb filesize)) (\<lambda>filesize_mb.
      bind (lift (py_greater filesize (MAX_FILE_SIZE_MB cfg * 1024 * 1024))) (\<lambda>too_large.
      if too_large then
        ret (Failure (SizeExceeded filesize_mb (MAX_FILE_SIZE_MB cfg)) (Some filesize_mb))
      else
        bind (emit (Download url)) (\<lambda>_.
        bind (\<lambda>w. case extract_info_download env url ydl_opts (fs w) of
                     (r, fs') \<Rightarrow> (r, w \<lparr> fs := fs' \<rparr>)) (\<lambda>info.
        bind (lift (prepare_filename env info)) (\<lambda>prepared.
        let filename = (if media_type = ''audio'' then rsplit_dot_head prepared @ ''.mp3''
                        else prepared) in
        bind (lift (description_prefix info)) (\<lambda>descr.
        ret (Success \<lparr> res_filepath = filename,
                       res_title = dict_get_default info ''title'' (PStr ''Unknown''),
                       res_duration = dict_get_default info ''duration'' (PInt 0),
                       res_thumbnail = dict_get info ''thumbnail'',
                       res_uploader = dict_get_default info ''uploader'' (PStr ''Unknown''),
                       res_description = descr,
                       res_filesize_mb = dict_get_default info ''estimated_filesize_mb'' (PInt 0) \<rparr>))))))))))"

definition download_media ::
  "environment \<Rightarrow> config \<Rightarrow> string \<Rightarrow> string \<Rightarrow> string \<Rightarrow> string option \<Rightarrow> world \<Rightarrow> (exn + dl_result) \<times> world" where
  "download_media env cfg url quality media_type progress_callback =
     try_except (download_media_body env cfg url quality media_type progress_callback)
       (\<lambda>e. bind (emit (Log (LogDownloadError (str_exn e)))) (\<lambda>_.
             ret (Failure (ExnMessage (str_exn e)) None)))"

section \<open>Finding and validating URLs\<close>

definition in_range :: "char \<Rightarrow> char \<Rightarrow> char \<Rightarrow> bool" where
  "in_range lo hi c = (of_char lo \<le> (of_char c :: nat) \<and> (of_char c :: nat) \<le> of_char hi)"

definition upper :: "char \<Rightarrow> bool" where
  "upper c = in_range CHR ''A'' CHR ''Z'' c"

definition lower :: "char \<Rightarrow> bool" where
  "lower c = in_range CHR ''a'' CHR ''z'' c"

definition digit :: "char \<Rightarrow> bool" where
  "digit c = in_range CHR ''0'' CHR ''9'' c"

text \<open>
  The pattern of \<^verbatim>\<open>handle_message\<close>:
  \<^verbatim>\<open>http[s]?://(?:[a-zA-Z]|[0-9]|[$-_@.&+]|[!*\\(\\),]|(?:%[0-9a-fA-F][0-9a-fA-F]))+\<close>.
  Its group takes one character at a time: the percent sign lies in the range from
  \<^verbatim>\<open>$\<close> to \<^verbatim>\<open>_\<close>, so the third alternative takes it before the last one is tried,
  and nothing follows the group that could make the matcher come back.
\<close>

definition url_char :: "char \<Rightarrow> bool" where
  "url_char c =
     ((lower c \<or> upper c)
      \<or> digit c
      \<or> (in_range CHR ''$'' CHR ''_'' c \<or> c \<in> set ''@.&+'')
      \<or> c \<in> set [CHR ''!'', CHR ''*'', CHR 0x5C, CHR ''('', CHR '')'', CHR '',''])"

text \<open>A match of the pattern at the start of the text, if there is one.\<close>

definition url_match_at :: "string \<Rightarrow> string option" where
  "url_match_at s =
     (let after_scheme =
            (if take 8 s = ''https://'' then Some (''https://'', drop 8 s)
             else if take 7 s = ''http://'' then Some (''http://'', drop 7 s)
             else None)
      in case after_scheme of
           None \<Rightarrow> None
         | Some (scheme, rest) \<Rightarrow>
             (if takeWhile url_char rest = [] then None
              else Some (scheme @ takeWhile url_char rest)))"

text \<open>
  \<^verbatim>\<open>re.findall\<close>: the matches from left to right, none overlapping another. \<open>skip\<close>
  counts the characters of the last match still to be passed over.
\<close>

fun findall_from :: "nat \<Rightarrow> string \<Rightarrow> string list" where
  "findall_from skip [] = []"
| "findall_from skip (c # cs) =
     (if skip > 0 then findall_from (skip - 1) cs
      else (case url_match_at (c # cs) of
              None \<Rightarrow> findall_from 0 cs
            | Some m \<Rightarrow> m # findall_from (length m - 1) cs))"

definition findall_urls :: "string \<Rightarrow> string list" where
  "findall_urls s = findall_from 0 s"

text \<open>
  The pattern of \<^verbatim>\<open>is_valid_url\<close> is kept as a regular expression and matched by
  derivatives: \<^verbatim>\<open>re.match\<close> finds a match exactly when the text is in the language of
  the pattern, which has neither look-around nor back-reference.
\<close>

datatype rx = Zero | One | Atom "char \<Rightarrow> bool" | Alt rx rx | Seq rx rx | Star rx | Rep rx nat nat

fun nullable :: "rx \<Rightarrow> bool" where
  "nullable Zero = False"
| "nullable One = True"
| "nullable (Atom p) = False"
| "nullable (Alt r s) = (nullable r \<or> nullable s)"
| "nullable (Seq r s) = (nullable r \<and> nullable s)"
| "nullable (Star r) = True"
| "nullable (Rep r m n) = (m = 0 \<or> nullable r)"

fun seq :: "rx \<Rightarrow> rx \<Rightarrow> rx" where
  "seq Zero s = Zero"
| "seq One s = s"
| "seq r s = Seq r s"

fun alt :: "rx \<Rightarrow> rx \<Rightarrow> rx" where
  "alt Zero s = s"
| "alt r Zero = r"
| "alt r s = Alt r s"

fun deriv :: "char \<Rightarrow> rx \<Rightarrow> rx" where
  "deriv c Zero = Zero"
| "deriv c One = Zero"
| "deriv c (Atom p) = (if p c then One else Zero)"
| "deriv c (Alt r s) = alt (deriv c r) (deriv c s)"
| "deriv c (Seq r s) =
     (if nullable r then alt (seq (deriv c r) s) (deriv c s) else seq (deriv c r) s)"
| "deriv c (Star r) = seq (deriv c r) (Star r)"
| "deriv c (Rep r m n) = (if n = 0 then Zero else seq (deriv c r) (Rep r (m - 1) (n - 1)))"

fun matches :: "rx \<Rightarrow> string \<Rightarrow> bool" where
  "matches r [] = nullable r"
| "matches r (c # cs) = matches (deriv c r) cs"

definition seqs :: "rx list \<Rightarrow> rx" where
  "seqs rs = foldr Seq rs One"

definition opt :: "rx \<Rightarrow> rx" where
  "opt r = Alt r One"

definition plus :: "rx \<Rightarrow> rx" where
  "plus r = Seq r (Star r)"

text \<open>A literal under \<^verbatim>\<open>re.IGNORECASE\<close>, given in lower case.\<close>

definition to_lower :: "char \<Rightarrow> char" where
  "to_lower c = (if upper c then char_of (of_char c + (32 :: nat)) else c)"

fun lit :: "string \<Rightarrow> rx" where
  "lit [] = One"
| "lit (c # cs) = Seq (Atom (\<lambda>x. to_lower x = c)) (lit cs)"

text \<open>\<^verbatim>\<open>[A-Z]\<close> under \<^verbatim>\<open>re.IGNORECASE\<close>, \<^verbatim>\<open>\d\<close> and \<^verbatim>\<open>\S\<close> on code points below 256.\<close>

definition letter :: "char \<Rightarrow> bool" where
  "letter c = (upper c \<or> lower c)"

definition alnum :: "char \<Rightarrow> bool" where
  "alnum c = (letter c \<or> digit c)"

definition whitespace :: "char \<Rightarrow> bool" where
  "whitespace c = ((of_char c :: nat) \<in> set [9, 10, 11, 12, 13, 28, 29, 30, 31, 32, 133, 160])"

definition host_name :: rx where
  "host_name =
     seqs [plus (seqs [Atom alnum,
                       opt (seqs [Rep (Atom (\<lambda>c. alnum c \<or> c = CHR ''-'')) 0 61, Atom alnum]),
                       lit ''.'']),
           Rep (Atom letter) 2 6,
           opt (lit ''.'')]"

definition host_ip :: rx where
  "host_ip =
     seqs [Rep (Atom digit) 1 3, lit ''.'', Rep (Atom digit) 1 3, lit ''.'',
           Rep (Atom digit) 1 3, lit ''.'', Rep (Atom digit) 1 3]"

definition url_pattern :: rx where
  "url_pattern =
     seqs [lit ''http'', opt (lit ''s''), lit ''://'',
           Alt host_name (Alt (lit ''localhost'') host_ip),
           opt (seqs [lit '':'', plus (Atom digit)]),
           Alt (opt (lit ''/''))
               (seqs [Atom (\<lambda>c. c = CHR ''/'' \<or> c = CHR ''?''),
                      plus (Atom (\<lambda>c. \<not> whitespace c))])]"

text \<open>\<^verbatim>\<open>$\<close> also matches before a newline that ends the text.\<close>

definition is_valid_url :: "string \<Rightarrow> bool" where
  "is_valid_url url =
     (matches url_pattern url
      \<or> (url \<noteq> [] \<and> last url = CHR 0x0A \<and> matches url_pattern (butlast url)))"

section \<open>Updates and the command handlers\<close>

text \<open>
  An update as the transport library hands it over: a text message, a message that is
  a command (by its name), or the press of a button, with the button's data and the
  message that carries the button.
\<close>

datatype payload =
    TextMessage string
  | CommandMessage string
  | CallbackQuery string nat

record update =
  effective_user :: int
  effective_chat :: int
  payload :: payload

text \<open>\<^verbatim>\<open>str\<close> of an integer.\<close>

function str_nat :: "nat \<Rightarrow> string" where
  "str_nat n =
     (if n < 10 then [char_of (48 + n)]
      else str_nat (n div 10) @ [char_of (48 + n mod 10)])"
  by pat_completeness auto
termination
  by (relation "measure (\<lambda>n. n)") auto

declare str_nat.simps [simp del]

definition str_int :: "int \<Rightarrow> string" where
  "str_int i = (if i < 0 then CHR ''-'' # str_nat (nat (- i)) else str_nat (nat i))"

text \<open>\<^verbatim>\<open>update.message.reply_text\<close>: \<^verbatim>\<open>update.message\<close> is \<open>None\<close> for a button press.\<close>

definition message_reply_text ::
  "environment \<Rightarrow> update \<Rightarrow> bot_text \<Rightarrow> keyboard \<Rightarrow> world \<Rightarrow> (exn + nat) \<times> world" where
  "message_reply_text env upd t kb =
     (case payload upd of
        CallbackQuery d m \<Rightarrow> raise (PyExn ''AttributeError'' ''NoneType object has no attribute reply_text'')
      | _ \<Rightarrow> reply_text env t kb)"

definition get_user_data :: "update \<Rightarrow> world \<Rightarrow> user_data" where
  "get_user_data upd w = users w (effective_user upd)"

definition set_user_data :: "update \<Rightarrow> (user_data \<Rightarrow> user_data) \<Rightarrow> world \<Rightarrow> (exn + unit) \<times> world" where
  "set_user_data upd f w =
     (Inr (), w \<lparr> users := (users w)(effective_user upd := f (users w (effective_user upd))) \<rparr>)"

definition start_command :: "environment \<Rightarrow> update \<Rightarrow> world \<Rightarrow> (exn + unit) \<times> world" where
  "start_command env upd =
     bind (message_reply_text env upd Welcome []) (\<lambda>_. ret ())"

definition help_command :: "environment \<Rightarrow> config \<Rightarrow> update \<Rightarrow> world \<Rightarrow> (exn + unit) \<times> world" where
  "help_command env cfg upd =
     bind (message_reply_text env upd (HelpText (MAX_FILE_SIZE_MB cfg)) []) (\<lambda>_. ret ())"

definition quality_keyboard :: keyboard where
  "quality_keyboard =
     [[(''Best Quality'', ''quality_best''), (''1080p'', ''quality_1080p'')],
      [(''720p'', ''quality_720p''), (''480p'', ''quality_480p'')]]"

definition quality_command :: "environment \<Rightarrow> update \<Rightarrow> world \<Rightarrow> (exn + unit) \<times> world" where
  "quality_command env upd =
     bind (message_reply_text env upd SelectQuality quality_keyboard) (\<lambda>_. ret ())"

definition audio_command :: "environment \<Rightarrow> update \<Rightarrow> world \<Rightarrow> (exn + unit) \<times> world" where
  "audio_command env upd =
     bind (set_user_data upd (\<lambda>ud. ud \<lparr> ud_media_type := Some ''audio'' \<rparr>)) (\<lambda>_.
     bind (message_reply_text env upd AudioModeEnabled []) (\<lambda>_. ret ()))"

definition video_command :: "environment \<Rightarrow> update \<Rightarrow> world \<Rightarrow> (exn + unit) \<times> world" where
  "video_command env upd =
     bind (set_user_data upd (\<lambda>ud. ud \<lparr> ud_media_type := Some ''video'' \<rparr>)) (\<lambda>_.
     (\<lambda>w. let quality = (case ud_quality (get_user_data upd w) of None \<Rightarrow> ''best'' | Some q \<Rightarrow> q)
           in bind (message_reply_text env upd (VideoModeEnabled quality) []) (\<lambda>_. ret ()) w))"

section \<open>send\_media\_file\<close>

text \<open>
  The caption: \<^verbatim>\<open>result['duration']//60\<close> and \<^verbatim>\<open>result['duration']%60:02d\<close> need an
  integer. A float passes the division and fails the format with \<^verbatim>\<open>ValueError\<close>,
  \<open>None\<close> and a string fail the division with \<^verbatim>\<open>TypeError\<close>. The cut of the
  caption at 1024 characters is not modelled.
\<close>

definition make_caption :: "media_result \<Rightarrow> rat \<Rightarrow> exn + caption" where
  "make_caption result file_size_mb =
     (case res_duration result of
        PInt d \<Rightarrow> Inr \<lparr> cap_title = res_title result,
                         cap_uploader = res_uploader result,
                         cap_minutes = d div 60,
                         cap_seconds = d mod 60,
                         cap_size_mb = file_size_mb \<rparr>
      | PFloat x \<Rightarrow> Inl (PyExn ''ValueError'' ''Unknown format code d for object of type float'')
      | _ \<Rightarrow> Inl (PyExn ''TypeError'' ''unsupported operand type(s) for //''))"

text \<open>\<^verbatim>\<open>open(filepath, 'rb')\<close>\<close>

definition open_rb :: "string \<Rightarrow> world \<Rightarrow> (exn + unit) \<times> world" where
  "open_rb p w =
     (if os_path_exists p w then (Inr (), w)
      else (Inl (PyExn ''FileNotFoundError'' p), w))"

definition send_action :: "string \<Rightarrow> string \<Rightarrow> caption \<Rightarrow> media_result \<Rightarrow> action" where
  "send_action media_type filepath cap result =
     (if media_type = ''audio'' then ReplyAudio filepath cap (res_title result) (res_uploader result)
      else ReplyVideo filepath cap)"

definition send_media_file ::
  "environment \<Rightarrow> update \<Rightarrow> nat \<Rightarrow> string \<Rightarrow> rat \<Rightarrow> media_result \<Rightarrow> string \<Rightarrow> world \<Rightarrow> (exn + unit) \<times> world" where
  "send_media_file env upd status_msg filepath file_size_mb result media_type =
     bind (lift (make_caption result file_size_mb)) (\<lambda>cap.
     bind (open_rb filepath) (\<lambda>_.
     bind (if hasattr_message env then
             (case payload upd of
                CallbackQuery d m \<Rightarrow>
                  raise (PyExn ''AttributeError'' ''NoneType object has no attribute reply'')
              | _ \<Rightarrow> tg env (send_action media_type filepath cap result))
           else tg env (send_action media_type filepath cap result)) (\<lambda>_.
     try_except (tg env (DeleteMessage status_msg)) (\<lambda>e. ret ()))))"

section \<open>button\_callback\<close>

definition startswith :: "string \<Rightarrow> string \<Rightarrow> bool" where
  "startswith s p = (take (length p) s = p)"

text \<open>\<^verbatim>\<open>s.replace(old, new)\<close>: every occurrence, from the left, none overlapping.\<close>

fun replace_from :: "string \<Rightarrow> string \<Rightarrow> nat \<Rightarrow> string \<Rightarrow> string" where
  "replace_from old new skip [] = []"
| "replace_from old new skip (c # cs) =
     (if skip > 0 then replace_from old new (skip - 1) cs
      else if take (length old) (c # cs) = old then new @ replace_from old new (length old - 1) cs
      else c # replace_from old new 0 cs)"

definition py_replace :: "string \<Rightarrow> string \<Rightarrow> string \<Rightarrow> string" where
  "py_replace old new s =
     (if old = [] then new @ concat (map (\<lambda>c. c # new) s)
      else replace_from old new 0 s)"

text \<open>\<^verbatim>\<open>pending['file_size_mb']\<close>: \<open>None\<close> has no items.\<close>

definition subscript_pending :: "pending option \<Rightarrow> exn + pending" where
  "subscript_pending pending =
     (case pending of
        None \<Rightarrow> Inl (PyExn ''TypeError'' ''NoneType object is not subscriptable'')
      | Some p \<Rightarrow> Inr p)"

text \<open>\<^verbatim>\<open>del context.user_data['pending_file']\<close>\<close>

definition del_pending_file :: "update \<Rightarrow> world \<Rightarrow> (exn + unit) \<times> world" where
  "del_pending_file upd w =
     (case ud_pending_file (get_user_data upd w) of
        None \<Rightarrow> (Inl (PyExn ''KeyError'' ''pending_file''), w)
      | Some p \<Rightarrow> set_user_data upd (\<lambda>ud. ud \<lparr> ud_pending_file := None \<rparr>) w)"

text \<open>\<^verbatim>\<open>if os.path.exists(p): os.remove(p)\<close>\<close>

definition remove_if_exists :: "environment \<Rightarrow> string \<Rightarrow> world \<Rightarrow> (exn + unit) \<times> world" where
  "remove_if_exists env p w =
     (if os_path_exists p w then os_remove env p w else (Inr (), w))"

definition button_callback :: "environment \<Rightarrow> update \<Rightarrow> world \<Rightarrow> (exn + unit) \<times> world" where
  "button_callback env upd =
     (case payload upd of
        CallbackQuery data query_message \<Rightarrow>
          bind (tg env AnswerQuery) (\<lambda>_.
          if startswith data ''quality_'' then
            (let quality = py_replace ''quality_'' [] data in
             bind (set_user_data upd (\<lambda>ud. ud \<lparr> ud_quality := Some quality \<rparr>)) (\<lambda>_.
             tg env (EditText query_message (QualitySet quality) [])))
          else if startswith data ''premium_'' then
            (if data = ''premium_yes'' then
               bind (set_user_data upd (\<lambda>ud. ud \<lparr> ud_has_premium := Some True \<rparr>)) (\<lambda>_.
               (\<lambda>w. case ud_pending_file (get_user_data upd w) of
                       Some pending \<Rightarrow>
                         bind (tg env (EditText query_message Uploading [])) (\<lambda>_.
                         try_except
                           (bind (send_media_file env upd query_message
                                    (pf_filepath pending) (pf_file_size_mb pending)
                                    (pf_result pending) (pf_media_type pending)) (\<lambda>_.
                            bind (remove_if_exists env (pf_filepath pending)) (\<lambda>_.
                            del_pending_file upd)))
                           (\<lambda>e. tg env (ReplyText (UploadFailed (str_exn e)) []))) w
                     | None \<Rightarrow> tg env (EditText query_message FileExpired []) w))
             else if data = ''premium_no'' then
               (\<lambda>w. let pending = ud_pending_file (get_user_data upd w) in
                  bind (lift (subscript_pending pending)) (\<lambda>p.
                  bind (tg env (EditText query_message (PremiumRequired (pf_file_size_mb p)) [])) (\<lambda>_.
                  bind (case pending of
                          None \<Rightarrow> ret ()
                        | Some p' \<Rightarrow> remove_if_exists env (pf_filepath p')) (\<lambda>_.
                  (\<lambda>w'. case ud_pending_file (get_user_data upd w') of
                           None \<Rightarrow> ret () w'
                         | Some p' \<Rightarrow> del_pending_file upd w')))) w)
             else ret ())
          else ret ())
      | _ \<Rightarrow> raise (PyExn ''AttributeError'' ''NoneType object has no attribute answer''))"

section \<open>handle\_message\<close>

text \<open>\<^verbatim>\<open>if ALLOWED_USERS and ALLOWED_USERS[0]\<close>\<close>

definition whitelist_configured :: "config \<Rightarrow> bool" where
  "whitelist_configured cfg =
     (case ALLOWED_USERS cfg of [] \<Rightarrow> False | first # _ \<Rightarrow> first \<noteq> [])"

definition message_text :: "update \<Rightarrow> exn + string" where
  "message_text upd =
     (case payload upd of
        TextMessage t \<Rightarrow> Inr t
      | CommandMessage c \<Rightarrow> Inr (CHR ''/'' # c)
      | CallbackQuery d m \<Rightarrow> Inl (PyExn ''AttributeError'' ''NoneType object has no attribute text''))"

definition premium_keyboard :: "string \<Rightarrow> string \<Rightarrow> string \<Rightarrow> keyboard" where
  "premium_keyboard url quality media_type =
     [[(''I have Premium'', ''premium_yes|'' @ url @ ''|'' @ quality @ ''|'' @ media_type),
       (''No Premium'', ''premium_no'')]]"

text \<open>
  The size test of the message handler, from \<^verbatim>\<open>if file_size_mb > PREMIUM_USER_LIMIT_MB\<close>
  to the last \<^verbatim>\<open>else\<close>. The result is \<open>False\<close> where the source leaves the handler
  with \<^verbatim>\<open>return\<close>, and \<open>True\<close> where it goes on to the removal of the file.
\<close>

definition deliver_by_size ::
  "environment \<Rightarrow> update \<Rightarrow> nat \<Rightarrow> string \<Rightarrow> string \<Rightarrow> string \<Rightarrow> bool \<Rightarrow> media_result \<Rightarrow> rat \<Rightarrow> world \<Rightarrow> (exn + bool) \<times> world" where
  "deliver_by_size env upd status_msg url quality media_type user_has_premium result file_size_mb =
     (let filepath = res_filepath result in
      if file_size_mb > PREMIUM_USER_LIMIT_MB then
        bind (tg env (EditText status_msg (FileTooLarge file_size_mb) [])) (\<lambda>_. ret True)
      else if file_size_mb > REGULAR_USER_LIMIT_MB then
        (if user_has_premium then
           bind (send_media_file env upd status_msg filepath file_size_mb result media_type) (\<lambda>_.
           ret True)
         else
           bind (tg env (EditText status_msg (LargeFileDetected file_size_mb)
                           (premium_keyboard url quality media_type))) (\<lambda>_.
           bind (set_user_data upd (\<lambda>ud. ud \<lparr> ud_pending_file :=
                   Some \<lparr> pf_filepath = filepath,
                          pf_file_size_mb = file_size_mb,
                          pf_result = result,
                          pf_media_type = media_type \<rparr> \<rparr>)) (\<lambda>_.
           ret False)))
      else
        bind (send_media_file env upd status_msg filepath file_size_mb result media_type) (\<lambda>_.
        ret True))"

text \<open>The removal that ends the \<^verbatim>\<open>try\<close> block, with its own \<^verbatim>\<open>try\<close>.\<close>

definition cleanup_downloaded :: "environment \<Rightarrow> string \<Rightarrow> world \<Rightarrow> (exn + unit) \<times> world" where
  "cleanup_downloaded env filepath =
     try_except (remove_if_exists env filepath)
       (\<lambda>e. emit (Log (LogRemoveError (str_exn e))))"

text \<open>The body of the \<^verbatim>\<open>try\<close> of \<^verbatim>\<open>handle_message\<close>.\<close>

definition handle_message_try ::
  "environment \<Rightarrow> config \<Rightarrow> update \<Rightarrow> nat \<Rightarrow> string \<Rightarrow> string \<Rightarrow> string \<Rightarrow> bool \<Rightarrow> world \<Rightarrow> (exn + unit) \<times> world" where
  "handle_message_try env cfg upd status_msg url quality media_type user_has_premium =
     bind (download_media env cfg url quality media_type None) (\<lambda>result.
     case result of
       Failure err mb \<Rightarrow> tg env (EditText status_msg (DownloadFailed err) [])
     | Success r \<Rightarrow>
         bind (tg env (EditText status_msg DownloadComplete [])) (\<lambda>_.
         bind (os_path_getsize (res_filepath r)) (\<lambda>file_size.
         let file_size_mb = of_nat file_size / (1024 * 1024) in
         bind (deliver_by_size env upd status_msg url quality media_type user_has_premium r
                 file_size_mb) (\<lambda>goes_on.
         if goes_on then cleanup_downloaded env (res_filepath r) else ret ()))))"

text \<open>\<^verbatim>\<open>handle_message\<close> from \<^verbatim>\<open>message_text = update.message.text\<close> on.\<close>

definition process_message :: "environment \<Rightarrow> config \<Rightarrow> update \<Rightarrow> world \<Rightarrow> (exn + unit) \<times> world" where
  "process_message env cfg upd =
     bind (lift (message_text upd)) (\<lambda>message_text.
     let urls = findall_urls message_text in
     case urls of
       [] \<Rightarrow> bind (message_reply_text env upd NoUrlFound []) (\<lambda>_. ret ())
     | url # _ \<Rightarrow>
         (\<lambda>w.
            let quality = (case ud_quality (get_user_data upd w) of None \<Rightarrow> ''best'' | Some q \<Rightarrow> q);
                media_type = (case ud_media_type (get_user_data upd w) of None \<Rightarrow> ''video'' | Some m \<Rightarrow> m)
            in
            (if \<not> is_valid_url url then
               bind (message_reply_text env upd InvalidUrl []) (\<lambda>_. ret ())
             else
               (let user_has_premium =
                      (case ud_has_premium (get_user_data upd w) of None \<Rightarrow> False | Some b \<Rightarrow> b)
                in
                bind (message_reply_text env upd (Processing media_type (take 50 url) quality) [])
                  (\<lambda>status_msg.
                bind (tg env (SendChatAction (effective_chat upd)
                        (if media_type = ''video'' then ''upload_video'' else ''upload_audio'')))
                  (\<lambda>_.
                try_except
                  (handle_message_try env cfg upd status_msg url quality media_type
                     user_has_premium)
                  (\<lambda>e. bind (emit (Log (LogProcessingError (str_exn e)))) (\<lambda>_.
                        tg env (EditText status_msg (ErrorOccurred (take 200 (str_exn e))) []))))))) w))"

definition handle_message :: "environment \<Rightarrow> config \<Rightarrow> update \<Rightarrow> world \<Rightarrow> (exn + unit) \<times> world" where
  "handle_message env cfg upd =
     (if whitelist_configured cfg \<and> str_int (effective_user upd) \<notin> set (ALLOWED_USERS cfg) then
        bind (message_reply_text env upd Unauthorized []) (\<lambda>_. ret ())
      else process_message env cfg upd)"

section \<open>The registered handlers\<close>

definition error_handler :: "environment \<Rightarrow> exn \<Rightarrow> world \<Rightarrow> (exn + unit) \<times> world" where
  "error_handler env e =
     bind (emit (Log (LogUpdateError (str_exn e)))) (\<lambda>_.
     tg env (ReplyText ErrorTryLater []))"

text \<open>
  \<^verbatim>\<open>main\<close> registers one handler for each of five commands, one for every button
  press, and \<^verbatim>\<open>handle_message\<close> for the text messages that are not commands. The
  library's \<^verbatim>\<open>CommandHandler\<close> compares the lower-cased name of the command with the
  registered name (a command name is made of ASCII letters, digits and underscores).
  A command with no handler is dropped.
\<close>

definition dispatch :: "environment \<Rightarrow> config \<Rightarrow> update \<Rightarrow> world \<Rightarrow> (exn + unit) \<times> world" where
  "dispatch env cfg upd =
     (case payload upd of
        CommandMessage c \<Rightarrow>
          (let name = map to_lower c in
           if name = ''start'' then start_command env upd
           else if name = ''help'' then help_command env cfg upd
           else if name = ''quality'' then quality_command env upd
           else if name = ''audio'' then audio_command env upd
           else if name = ''video'' then video_command env upd
           else ret ())
      | CallbackQuery d m \<Rightarrow> button_callback env upd
      | TextMessage t \<Rightarrow> handle_message env cfg upd)"

text \<open>
  The application hands an exception of a handler to \<^verbatim>\<open>error_handler\<close>; what the error
  handler itself raises is logged by the library and goes no further.
\<close>

definition process_update :: "environment \<Rightarrow> config \<Rightarrow> update \<Rightarrow> world \<Rightarrow> (exn + unit) \<times> world" where
  "process_update env cfg upd =
     try_except (dispatch env cfg upd)
       (\<lambda>e. try_except (error_handler env e) (\<lambda>e'. ret ()))"

section \<open>Observations and example inputs\<close>

text \<open>The files a trace sends and the files it asks the system to remove.\<close>

fun sends_of :: "event list \<Rightarrow> action list" where
  "sends_of [] = []"
| "sends_of (Tg a # evs) = (if is_send a then a # sends_of evs else sends_of evs)"
| "sends_of (ev # evs) = sends_of evs"

fun removes_of :: "event list \<Rightarrow> string list" where
  "removes_of [] = []"
| "removes_of (Remove p # evs) = p # removes_of evs"
| "removes_of (ev # evs) = removes_of evs"

fun downloads_of :: "event list \<Rightarrow> string list" where
  "downloads_of [] = []"
| "downloads_of (Download u # evs) = u # downloads_of evs"
| "downloads_of (ev # evs) = downloads_of evs"

definition MB :: nat where
  "MB = 1024 * 1024"

definition world0 :: world where
  "world0 = \<lparr> fs = Map.empty, users = (\<lambda>u. empty_user_data), trace = [] \<rparr>"

definition cfg0 :: config where
  "cfg0 = \<lparr> DOWNLOAD_PATH = ''./downloads'', MAX_FILE_SIZE_MB = 2048, ALLOWED_USERS_env = [] \<rparr>"

text \<open>
  An engine for the examples: the probe reports the title and the estimate it is
  given, the download writes a file of the given size, named after the title.
\<close>

definition info0 :: "string \<Rightarrow> pyval \<Rightarrow> info" where
  "info0 name estimate =
     [''title'' \<mapsto> PStr name, ''duration'' \<mapsto> PInt 125, ''uploader'' \<mapsto> PStr ''someone'',
      ''description'' \<mapsto> PStr ''a clip'', ''filesize'' \<mapsto> estimate]"

definition file_of :: "info \<Rightarrow> string" where
  "file_of i = (case i ''title'' of Some (PStr t) \<Rightarrow> ''./downloads/'' @ t @ ''.mp4'' | _ \<Rightarrow> ''./downloads/NA.mp4'')"

definition engine0 :: "(string \<Rightarrow> string \<times> pyval \<times> nat) \<Rightarrow> (nat \<Rightarrow> action \<Rightarrow> exn option) \<Rightarrow> environment" where
  "engine0 catalogue tr =
     \<lparr> extract_info_probe = (\<lambda>url opts. case catalogue url of (name, estimate, bytes) \<Rightarrow>
          Inr (info0 name estimate)),
       extract_info_download = (\<lambda>url opts files. case catalogue url of (name, estimate, bytes) \<Rightarrow>
          (Inr (info0 name estimate), files(file_of (info0 name estimate) \<mapsto> bytes))),
       prepare_filename = (\<lambda>i. Inr (file_of i)),
       transport = tr,
       remove_refused = (\<lambda>p. None),
       hasattr_message = True \<rparr>"

definition catalogue0 :: "string \<Rightarrow> string \<times> pyval \<times> nat" where
  "catalogue0 url =
     (if url = ''https://example.com/small'' then (''small'', PInt (int (10 * MB)), 10 * MB)
      else if url = ''https://example.com/large'' then (''large'', PNone, 120 * MB)
      else if url = ''https://example.com/other'' then (''other'', PNone, 130 * MB)
      else if url = ''https://example.com/huge'' then (''huge'', PNone, 3000 * MB)
      else (''long'', PInt (int (3000 * MB)), 3000 * MB))"

definition accept_all :: "nat \<Rightarrow> action \<Rightarrow> exn option" where
  "accept_all n a = None"

definition refuse_sends :: "nat \<Rightarrow> action \<Rightarrow> exn option" where
  "refuse_sends n a = (if is_send a then Some (PyExn ''NetworkError'' ''timed out'') else None)"

definition env0 :: environment where
  "env0 = engine0 catalogue0 accept_all"

definition env_refusing_sends :: environment where
  "env_refusing_sends = engine0 catalogue0 refuse_sends"

definition env_probe_fails :: environment where
  "env_probe_fails =
     env0 \<lparr> extract_info_probe := (\<lambda>url opts. Inl (PyExn ''DownloadError'' ''Unsupported URL'')) \<rparr>"

definition env_download_fails :: environment where
  "env_download_fails =
     env0 \<lparr> extract_info_download :=
              (\<lambda>url opts files. (Inl (PyExn ''DownloadError'' ''Video unavailable''), files)) \<rparr>"

definition cfg_allow :: "string \<Rightarrow> config" where
  "cfg_allow a = cfg0 \<lparr> ALLOWED_USERS_env := a \<rparr>"

definition text_from :: "int \<Rightarrow> string \<Rightarrow> update" where
  "text_from u t = \<lparr> effective_user = u, effective_chat = u, payload = TextMessage t \<rparr>"

definition press_from :: "int \<Rightarrow> string \<Rightarrow> nat \<Rightarrow> update" where
  "press_from u d m = \<lparr> effective_user = u, effective_chat = u, payload = CallbackQuery d m \<rparr>"

definition command_from :: "int \<Rightarrow> string \<Rightarrow> update" where
  "command_from u c = \<lparr> effective_user = u, effective_chat = u, payload = CommandMessage c \<rparr>"

text \<open>Running updates one after another; a handler that raises does not stop the bot.\<close>

fun run_updates :: "environment \<Rightarrow> config \<Rightarrow> update list \<Rightarrow> world \<Rightarrow> world" where
  "run_updates env cfg [] w = w"
| "run_updates env cfg (u # us) w = run_updates env cfg us (snd (process_update env cfg u w))"

definition world_with_file :: world where
  "world_with_file = world0 \<lparr> fs := [''./downloads/small.mp4'' \<mapsto> 10 * MB] \<rparr>"

text \<open>The world after a large download and the press of the second button.\<close>

definition after_refusal :: world where
  "after_refusal = run_updates env0 cfg0
     [text_from 222 ''https://example.com/large'', press_from 222 ''premium_no'' 0] world0"

text \<open>What the example engine's download of a title yields.\<close>

definition result0 :: "string \<Rightarrow> media_result" where
  "result0 name =
     \<lparr> res_filepath = ''./downloads/'' @ name @ ''.mp4'', res_title = PStr name,
       res_duration = PInt 125, res_thumbnail = PNone, res_uploader = PStr ''someone'',
       res_description = PStr ''a clip'', res_filesize_mb = PInt 0 \<rparr>"

definition downloaded :: "string \<Rightarrow> string \<Rightarrow> nat \<Rightarrow> world" where
  "downloaded url name bytes =
     world0 \<lparr> fs := [''./downloads/'' @ name @ ''.mp4'' \<mapsto> bytes],
              trace := [Probe url, Download url] \<rparr>"

definition caption0 :: "string \<Rightarrow> rat \<Rightarrow> caption" where
  "caption0 name mb =
     \<lparr> cap_title = PStr name, cap_uploader = PStr ''someone'', cap_minutes = 2,
       cap_seconds = 5, cap_size_mb = mb \<rparr>"

text \<open>An engine whose download reports a duration that is not a whole number.\<close>

definition env_float_duration :: environment where
  "env_float_duration =
     env0 \<lparr> extract_info_download := (\<lambda>url opts files.
              (Inr ((info0 ''small'' PNone)(''duration'' \<mapsto> PFloat (25 / 2))),
               files(''./downloads/small.mp4'' \<mapsto> 10 * MB))) \<rparr>"

text \<open>The world after a large download, with the question pending.\<close>

definition after_large :: world where
  "after_large = run_updates env0 cfg0 [text_from 222 ''https://example.com/large''] world0"



section \<open>Evaluation lemmas\<close>

lemmas cmd_defs = bind_def ret_def raise_def lift_def try_except_def emit_def tg_def

lemmas example_defs = world0_def cfg0_def cfg_allow_def engine0_def env0_def env_refusing_sends_def
  env_float_duration_def after_large_def
  env_probe_fails_def env_download_fails_def info0_def file_of_def accept_all_def refuse_sends_def
  catalogue0_def text_from_def press_from_def command_from_def empty_user_data_def MB_def

lemmas download_defs = download_media_def download_media_body_def ydl_opts_for_def
  estimated_filesize_def div_mb_def py_greater_def description_prefix_def
  dict_get_def dict_get_default_def

lemmas handler_defs = process_update_def error_handler_def dispatch_def handle_message_def process_message_def handle_message_try_def
  deliver_by_size_def cleanup_downloaded_def remove_if_exists_def send_media_file_def
  reply_text_def message_reply_text_def message_text_def whitelist_configured_def ALLOWED_USERS_def
  get_user_data_def set_user_data_def os_path_exists_def os_path_getsize_def os_remove_def
  open_rb_def make_caption_def send_action_def premium_keyboard_def
  REGULAR_USER_LIMIT_MB_def PREMIUM_USER_LIMIT_MB_def
  button_callback_def startswith_def del_pending_file_def subscript_pending_def
  start_command_def help_command_def quality_command_def audio_command_def video_command_def

lemma urls_small: "findall_urls ''https://example.com/small'' = [''https://example.com/small'']"
  by code_simp

lemma urls_large: "findall_urls ''https://example.com/large'' = [''https://example.com/large'']"
  by code_simp

lemma urls_other: "findall_urls ''https://example.com/other'' = [''https://example.com/other'']"
  by code_simp

lemma urls_huge: "findall_urls ''https://example.com/huge'' = [''https://example.com/huge'']"
  by code_simp

lemma valid_small: "is_valid_url ''https://example.com/small''"
  by code_simp

lemma valid_large: "is_valid_url ''https://example.com/large''"
  by code_simp

lemma valid_other: "is_valid_url ''https://example.com/other''"
  by code_simp

lemma valid_huge: "is_valid_url ''https://example.com/huge''"
  by code_simp

lemma str_int_222: "str_int 222 = ''222''"
  by code_simp

lemma str_int_999: "str_int 999 = ''999''"
  by code_simp

lemmas example_evals = urls_small urls_large urls_other urls_huge valid_small valid_large
  valid_other valid_huge str_int_222 str_int_999

section \<open>The size ceiling before the download\<close>



section \<open>Engine failures\<close>



section \<open>Removal of a file that is gone\<close>

text \<open>
  Claim C8. When the file is not on the disk, the removal step of the message handler
  and the one of the button handler (\<^verbatim>\<open>if os.path.exists(p): os.remove(p)\<close>) both return
  without raising and leave the world as it is: no removal is asked of the system.
\<close>

theorem cleanup_of_removed_file_never_raises:
  assumes "fs w p = None"
  shows "cleanup_downloaded env p w = (Inr (), w) \<and> remove_if_exists env p w = (Inr (), w)"
  using assms
  by (simp add: cleanup_downloaded_def remove_if_exists_def try_except_def os_path_exists_def)

theorem cleanup_of_removed_file_never_raises_witness:
  "fs (snd (cleanup_downloaded env0 ''./downloads/small.mp4'' world_with_file))
      ''./downloads/small.mp4'' = None
   \<and> removes_of (trace (snd (cleanup_downloaded env0 ''./downloads/small.mp4'' world_with_file)))
      = [''./downloads/small.mp4'']
   \<and> cleanup_downloaded env0 ''./downloads/small.mp4''
        (snd (cleanup_downloaded env0 ''./downloads/small.mp4'' world_with_file))
      = (Inr (), snd (cleanup_downloaded env0 ''./downloads/small.mp4'' world_with_file))
   \<and> remove_if_exists env0 ''./downloads/small.mp4''
        (snd (cleanup_downloaded env0 ''./downloads/small.mp4'' world_with_file))
      = (Inr (), snd (cleanup_downloaded env0 ''./downloads/small.mp4'' world_with_file))"
proof -
  have a: "fs (snd (cleanup_downloaded env0 ''./downloads/small.mp4'' world_with_file))
             ''./downloads/small.mp4'' = None"
    by (simp add: world_with_file_def example_defs handler_defs cmd_defs)
  have b: "removes_of (trace (snd (cleanup_downloaded env0 ''./downloads/small.mp4''
             world_with_file))) = [''./downloads/small.mp4'']"
    by (simp add: world_with_file_def example_defs handler_defs cmd_defs)
  from cleanup_of_removed_file_never_raises [OF a, of env0] a b show ?thesis
    by simp
qed

section \<open>The allow-list\<close>

text \<open>
  The guard of the message handler, \<^verbatim>\<open>if ALLOWED_USERS and ALLOWED_USERS[0]\<close>, read on
  the text of the variable: it holds exactly when the text is not empty and does not
  begin with a comma.
\<close>

lemma whitelist_configured_iff:
  "whitelist_configured cfg \<longleftrightarrow>
     (ALLOWED_USERS_env cfg \<noteq> [] \<and> hd (ALLOWED_USERS_env cfg) \<noteq> CHR '','')"
  by (cases "ALLOWED_USERS_env cfg")
     (auto simp add: whitelist_configured_def ALLOWED_USERS_def split: list.splits)

text \<open>
  What the guard does, for a text message. If the text of \<^verbatim>\<open>ALLOWED_USERS\<close> is not
  empty and does not begin with a comma, and the sender's id is not one of its
  comma-separated entries, the handler makes one call, the reply with the unauthorized
  notice, and nothing else. Otherwise the guard is not taken and the handler goes on to
  the processing of the message.
\<close>

lemma allow_list_guard:
  assumes "payload upd = TextMessage t"
  shows "(ALLOWED_USERS_env cfg \<noteq> [] \<and> hd (ALLOWED_USERS_env cfg) \<noteq> CHR '',''
            \<and> str_int (effective_user upd) \<notin> set (ALLOWED_USERS cfg) \<longrightarrow>
          handle_message env cfg upd w =
            ((case transport env (length (trace w)) (ReplyText Unauthorized []) of
                None \<Rightarrow> Inr () | Some e \<Rightarrow> Inl e),
             w \<lparr> trace := trace w @ [Tg (ReplyText Unauthorized [])] \<rparr>))
       \<and> (ALLOWED_USERS_env cfg = [] \<or> hd (ALLOWED_USERS_env cfg) = CHR '','' \<longrightarrow>
          handle_message env cfg upd w = process_message env cfg upd w)"
  using assms
  by (auto simp add: handle_message_def whitelist_configured_iff message_reply_text_def
      reply_text_def cmd_defs split: option.splits)

lemma allow_list_guard_example:
  "payload (text_from 222 ''https://example.com/small'') = TextMessage ''https://example.com/small''
   \<and> ALLOWED_USERS_env (cfg_allow ''111'') \<noteq> [] \<and> hd (ALLOWED_USERS_env (cfg_allow ''111'')) \<noteq> CHR '',''
   \<and> str_int (effective_user (text_from 222 ''https://example.com/small'')) \<notin> set (ALLOWED_USERS (cfg_allow ''111''))
   \<and> handle_message env0 (cfg_allow ''111'') (text_from 222 ''https://example.com/small'') world0
      = (Inr (), world0 \<lparr> trace := [Tg (ReplyText Unauthorized [])] \<rparr>)
   \<and> ALLOWED_USERS_env (cfg_allow []) = []
   \<and> handle_message env0 (cfg_allow []) (text_from 222 ''https://example.com/small'') world0
      = process_message env0 (cfg_allow []) (text_from 222 ''https://example.com/small'') world0
   \<and> downloads_of (trace (snd (handle_message env0 (cfg_allow []) (text_from 222 ''https://example.com/small'') world0)))
      = [''https://example.com/small'']"
proof -
  have a: "payload (text_from 222 ''https://example.com/small'') = TextMessage ''https://example.com/small''"
    by (simp add: example_defs)
  have b: "ALLOWED_USERS_env (cfg_allow ''111'') \<noteq> [] \<and> hd (ALLOWED_USERS_env (cfg_allow ''111'')) \<noteq> CHR '',''
     \<and> str_int (effective_user (text_from 222 ''https://example.com/small'')) \<notin> set (ALLOWED_USERS (cfg_allow ''111''))"
    by (simp add: example_defs example_evals ALLOWED_USERS_def)
  have c: "ALLOWED_USERS_env (cfg_allow []) = []"
    by (simp add: example_defs)
  have d: "downloads_of (trace (snd (process_message env0 (cfg_allow []) (text_from 222 ''https://example.com/small'') world0)))
      = [''https://example.com/small'']"
    by (simp add: example_defs example_evals handler_defs download_defs cmd_defs Let_def)
  have e: "transport env0 (length (trace world0)) (ReplyText Unauthorized []) = None"
    by (simp add: example_defs)
  from allow_list_guard [OF a, of "cfg_allow ''111''" env0 world0] b e
  have f: "handle_message env0 (cfg_allow ''111'') (text_from 222 ''https://example.com/small'') world0
      = (Inr (), world0 \<lparr> trace := [Tg (ReplyText Unauthorized [])] \<rparr>)"
    by (simp add: world0_def)
  from allow_list_guard [OF a, of "cfg_allow []" env0 world0] c
  have g: "handle_message env0 (cfg_allow []) (text_from 222 ''https://example.com/small'') world0
      = process_message env0 (cfg_allow []) (text_from 222 ''https://example.com/small'') world0"
    by simp
  from a b c d f g show ?thesis by simp
qed

text \<open>
  Claim C7, on the code. The allow-list is configured as \<^verbatim>\<open>,123\<close>: the list is not
  empty and the sender 999 is not in it. The claim has the handler reply with the
  unauthorized notice and stop. The guard looks at the first entry of the list alone,
  which is empty here, so the check is skipped: the handler downloads the file for
  sender 999 and never sends the notice.
\<close>

theorem leading_comma_allow_list_fails_open:
  "ALLOWED_USERS_env (cfg_allow '',123'') \<noteq> []
   \<and> str_int 999 \<notin> set (ALLOWED_USERS (cfg_allow '',123''))
   \<and> downloads_of (trace (snd (handle_message env0 (cfg_allow '',123'')
        (text_from 999 ''https://example.com/small'') world0))) = [''https://example.com/small'']
   \<and> Tg (ReplyText Unauthorized []) \<notin> set (trace (snd (handle_message env0 (cfg_allow '',123'')
        (text_from 999 ''https://example.com/small'') world0)))"
  by (simp add: example_defs example_evals handler_defs download_defs cmd_defs Let_def)

section \<open>The second button without a pending file\<close>

lemma after_refusal_eq:
  "after_refusal = \<lparr> fs = Map.empty, users = (\<lambda>u. empty_user_data)(222 := empty_user_data),
     trace = [Tg (ReplyText (Processing ''video'' ''https://example.com/large'' ''best'') []),
              Tg (SendChatAction 222 ''upload_video''),
              Probe ''https://example.com/large'', Download ''https://example.com/large'',
              Tg (EditText 0 DownloadComplete []),
              Tg (EditText 0 (LargeFileDetected 120)
                    [[(''I have Premium'', ''premium_yes|https://example.com/large|best|video''),
                      (''No Premium'', ''premium_no'')]]),
              Tg AnswerQuery,
              Tg (EditText 0 (PremiumRequired 120) []),
              Remove ''./downloads/large.mp4''] \<rparr>"
  by (simp add: after_refusal_def example_defs example_evals handler_defs download_defs cmd_defs Let_def)

text \<open>
  Claim C10. When the data of a button press is \<^verbatim>\<open>premium_no\<close> and the user has no
  pending file, the button handler raises: after \<^verbatim>\<open>query.answer()\<close> it makes no other
  call, and the exception is the \<^verbatim>\<open>TypeError\<close> of subscripting \<open>None\<close> (or the
  transport's own, when the answer itself fails). The state is reachable: the witness
  takes it after a large download and a first press of the same button.
\<close>

theorem premium_no_without_pending_raises:
  assumes "payload upd = CallbackQuery ''premium_no'' m"
      and "ud_pending_file (users w (effective_user upd)) = None"
  shows "button_callback env upd w =
           (Inl (case transport env (length (trace w)) AnswerQuery of
                   None \<Rightarrow> PyExn ''TypeError'' ''NoneType object is not subscriptable''
                 | Some e \<Rightarrow> e),
            w \<lparr> trace := trace w @ [Tg AnswerQuery] \<rparr>)"
  using assms
  by (simp add: button_callback_def startswith_def subscript_pending_def get_user_data_def cmd_defs
      split: option.splits)

theorem premium_no_without_pending_raises_witness:
  "payload (press_from 222 ''premium_no'' 0) = CallbackQuery ''premium_no'' 0
   \<and> ud_pending_file (users after_refusal (effective_user (press_from 222 ''premium_no'' 0))) = None
   \<and> removes_of (trace after_refusal) = [''./downloads/large.mp4'']
   \<and> button_callback env0 (press_from 222 ''premium_no'' 0) after_refusal
      = (Inl (PyExn ''TypeError'' ''NoneType object is not subscriptable''),
         after_refusal \<lparr> trace := trace after_refusal @ [Tg AnswerQuery] \<rparr>)"
proof -
  have a: "payload (press_from 222 ''premium_no'' 0) = CallbackQuery ''premium_no'' 0"
    by (simp add: example_defs)
  have b: "ud_pending_file (users after_refusal (effective_user (press_from 222 ''premium_no'' 0))) = None"
    by (simp add: after_refusal_eq example_defs)
  have c: "removes_of (trace after_refusal) = [''./downloads/large.mp4'']"
    by (simp add: after_refusal_eq)
  have d: "transport env0 (length (trace after_refusal)) AnswerQuery = None"
    by (simp add: example_defs)
  from premium_no_without_pending_raises [OF a b, of env0] a b c d show ?thesis by simp
qed

section \<open>Routing by the measured size\<close>

lemma sends_of_append: "sends_of (xs @ ys) = sends_of xs @ sends_of ys"
  by (induction xs rule: sends_of.induct) auto

lemma cleanup_downloaded_total:
  "\<exists>w' rest. cleanup_downloaded env p w = (Inr (), w') \<and> users w' = users w
      \<and> trace w' = trace w @ rest \<and> sends_of rest = []"
  by (cases "fs w p"; cases "remove_refused env p")
     (simp_all add: cleanup_downloaded_def remove_if_exists_def os_path_exists_def os_remove_def
        try_except_def emit_def Let_def)

lemma send_media_file_message:
  assumes "payload upd = TextMessage t"
      and "make_caption r mb = Inr cap"
      and "fs w p = Some b"
      and "\<forall>n a. \<not> is_send a \<longrightarrow> transport env n a = None"
  shows "send_media_file env upd st p mb r mt w =
           (case transport env (length (trace w)) (send_action mt p cap r) of
              None \<Rightarrow> (Inr (), w \<lparr> trace := trace w @ [Tg (send_action mt p cap r), Tg (DeleteMessage st)] \<rparr>)
            | Some e \<Rightarrow> (Inl e, w \<lparr> trace := trace w @ [Tg (send_action mt p cap r)] \<rparr>))"
  using assms
  by (simp add: send_media_file_def open_rb_def os_path_exists_def cmd_defs split: option.splits)

lemma is_send_send_action: "is_send (send_action mt p cap r)"
  by (simp add: send_action_def)

lemma download_huge:
  "download_media env0 cfg0 ''https://example.com/huge'' ''best'' ''video'' None world0
     = (Inr (Success (result0 ''huge'')), downloaded ''https://example.com/huge'' ''huge'' (3000 * MB))"
  by (simp add: example_defs download_defs cmd_defs result0_def downloaded_def Let_def)

lemma download_large:
  "download_media env0 cfg0 ''https://example.com/large'' ''best'' ''video'' None world0
     = (Inr (Success (result0 ''large'')), downloaded ''https://example.com/large'' ''large'' (120 * MB))"
  by (simp add: example_defs download_defs cmd_defs result0_def downloaded_def Let_def)

lemma download_small:
  "download_media env0 cfg0 ''https://example.com/small'' ''best'' ''video'' None world0
     = (Inr (Success (result0 ''small'')), downloaded ''https://example.com/small'' ''small'' (10 * MB))"
  by (simp add: example_defs download_defs cmd_defs result0_def downloaded_def Let_def)

lemma size_downloaded:
  "fs (downloaded url name bytes) (res_filepath (result0 name)) = Some bytes"
  by (simp add: downloaded_def result0_def)

lemma env0_accepts: "\<forall>n a. transport env0 n a = None"
  by (simp add: example_defs)

lemma caption_result0: "make_caption (result0 name) mb = Inr (caption0 name mb)"
  by (simp add: make_caption_def result0_def caption0_def)

text \<open>
  For a text message whose first URL is valid, on a transport that accepts the calls
  that are not sends, the handler sends the status message and the chat action and
  enters the \<^verbatim>\<open>try\<close> block with the user's quality, media type and premium flag.
\<close>

lemma process_message_runs_try:
  assumes msg: "payload upd = TextMessage text"
      and urls: "findall_urls text = url # others"
      and valid: "is_valid_url url"
      and tx: "\<forall>n a. \<not> is_send a \<longrightarrow> transport env n a = None"
  shows "process_message env cfg upd w =
           (let ud = users w (effective_user upd);
                quality = (case ud_quality ud of None \<Rightarrow> ''best'' | Some q \<Rightarrow> q);
                media_type = (case ud_media_type ud of None \<Rightarrow> ''video'' | Some m \<Rightarrow> m);
                user_has_premium = (case ud_has_premium ud of None \<Rightarrow> False | Some b \<Rightarrow> b)
            in try_except
                 (handle_message_try env cfg upd (length (trace w)) url quality media_type
                    user_has_premium)
                 (\<lambda>e. bind (emit (Log (LogProcessingError (str_exn e)))) (\<lambda>_.
                       tg env (EditText (length (trace w)) (ErrorOccurred (take 200 (str_exn e))) [])))
                 (w \<lparr> trace := trace w @
                        [Tg (ReplyText (Processing media_type (take 50 url) quality) []),
                         Tg (SendChatAction (effective_chat upd)
                               (if media_type = ''video'' then ''upload_video'' else ''upload_audio''))] \<rparr>))"
  using msg urls valid tx
  by (simp add: process_message_def message_text_def message_reply_text_def reply_text_def
      get_user_data_def lift_def bind_def ret_def tg_def Let_def)

text \<open>
  The routing by size. Take the \<^verbatim>\<open>try\<close> block of the message handler at a download
  that succeeded with a file of \<open>bytes\<close> bytes on the disk, for a text message, on a
  transport that accepts every call that is not a send. With \<open>mb\<close> the size in MB:
  above 2048 the status message is edited to the size error, no send is attempted and no
  user data changes; between 50 and 2048 without the premium flag the status message is
  edited to the question with its two buttons, the pending file is stored and nothing
  else happens; at most 50, or at most 2048 with the premium flag, the block is the
  delivery routine followed by the removal, and whenever the caption can be formatted
  the send of the file is the call right after the "download complete" edit, it is the
  only send, and no pending file is stored.
\<close>

lemma size_routing:
  assumes dl: "download_media env cfg url quality media_type None w = (Inr (Success r), w1)"
      and sz: "fs w1 (res_filepath r) = Some bytes"
      and tx: "\<forall>n a. \<not> is_send a \<longrightarrow> transport env n a = None"
      and msg: "payload upd = TextMessage t"
  shows "let p = res_filepath r;
             mb = of_nat bytes / (1024 * 1024);
             wD = w1 \<lparr> trace := trace w1 @ [Tg (EditText st DownloadComplete [])] \<rparr>;
             R = handle_message_try env cfg upd st url quality media_type premium w
         in (mb > PREMIUM_USER_LIMIT_MB \<longrightarrow>
               fst R = Inr () \<and> users (snd R) = users w1
               \<and> (\<exists>rest. trace (snd R) = trace w1 @ [Tg (EditText st DownloadComplete []),
                                                       Tg (EditText st (FileTooLarge mb) [])] @ rest
                          \<and> sends_of rest = []))
          \<and> (REGULAR_USER_LIMIT_MB < mb \<and> mb \<le> PREMIUM_USER_LIMIT_MB \<and> \<not> premium \<longrightarrow>
               R = (Inr (),
                    w1 \<lparr> trace := trace w1 @ [Tg (EditText st DownloadComplete []),
                            Tg (EditText st (LargeFileDetected mb)
                                  [[(''I have Premium'',
                                     ''premium_yes|'' @ url @ ''|'' @ quality @ ''|'' @ media_type),
                                    (''No Premium'', ''premium_no'')]])],
                         users := (users w1)(effective_user upd :=
                            (users w1 (effective_user upd)) \<lparr> ud_pending_file :=
                               Some \<lparr> pf_filepath = p, pf_file_size_mb = mb,
                                      pf_result = r, pf_media_type = media_type \<rparr> \<rparr>) \<rparr>))
          \<and> (mb \<le> REGULAR_USER_LIMIT_MB
               \<or> (REGULAR_USER_LIMIT_MB < mb \<and> mb \<le> PREMIUM_USER_LIMIT_MB \<and> premium) \<longrightarrow>
               R = bind (send_media_file env upd st p mb r media_type)
                     (\<lambda>_. cleanup_downloaded env p) wD
               \<and> (\<forall>cap. make_caption r mb = Inr cap \<longrightarrow>
                     users (snd R) = users w1
                     \<and> (\<exists>rest. trace (snd R) = trace w1 @ [Tg (EditText st DownloadComplete []),
                                    Tg (send_action media_type p cap r)] @ rest
                                \<and> sends_of rest = [])))"
proof -
  define p where "p = res_filepath r"
  define mb :: rat where "mb = of_nat bytes / (1024 * 1024)"
  define wD where "wD = w1 \<lparr> trace := trace w1 @ [Tg (EditText st DownloadComplete [])] \<rparr>"
  define R where "R = handle_message_try env cfg upd st url quality media_type premium w"
  have dc: "tg env (EditText st DownloadComplete []) w1 = (Inr (), wD)"
    using tx by (simp add: tg_def wD_def)
  have R_eq: "R = bind (deliver_by_size env upd st url quality media_type premium r mb)
                    (\<lambda>goes_on. if goes_on then cleanup_downloaded env p else ret ()) wD"
    using dl sz dc
    unfolding R_def p_def mb_def wD_def
    by (simp add: handle_message_try_def bind_def os_path_getsize_def)
  have fsD: "fs wD p = Some bytes"
    using sz by (simp add: wD_def p_def)
  have reject: "fst R = Inr () \<and> users (snd R) = users w1
               \<and> (\<exists>rest. trace (snd R) = trace w1 @ [Tg (EditText st DownloadComplete []),
                                                       Tg (EditText st (FileTooLarge mb) [])] @ rest
                          \<and> sends_of rest = [])"
    if big: "mb > PREMIUM_USER_LIMIT_MB"
  proof -
    define wR where "wR = wD \<lparr> trace := trace wD @ [Tg (EditText st (FileTooLarge mb) [])] \<rparr>"
    have "R = cleanup_downloaded env p wR"
      using big tx by (simp add: R_eq deliver_by_size_def cmd_defs wR_def p_def)
    moreover obtain w' rest where "cleanup_downloaded env p wR = (Inr (), w')"
        "users w' = users wR" "trace w' = trace wR @ rest" "sends_of rest = []"
      using cleanup_downloaded_total [of env p wR] by blast
    ultimately show ?thesis
      by (simp add: wR_def wD_def)
  qed
  have confirm: "R = (Inr (),
                    w1 \<lparr> trace := trace w1 @ [Tg (EditText st DownloadComplete []),
                            Tg (EditText st (LargeFileDetected mb)
                                  [[(''I have Premium'',
                                     ''premium_yes|'' @ url @ ''|'' @ quality @ ''|'' @ media_type),
                                    (''No Premium'', ''premium_no'')]])],
                         users := (users w1)(effective_user upd :=
                            (users w1 (effective_user upd)) \<lparr> ud_pending_file :=
                               Some \<lparr> pf_filepath = p, pf_file_size_mb = mb,
                                      pf_result = r, pf_media_type = media_type \<rparr> \<rparr>) \<rparr>)"
    if mid: "REGULAR_USER_LIMIT_MB < mb" "mb \<le> PREMIUM_USER_LIMIT_MB" "\<not> premium"
    using mid tx
    by (simp add: R_eq deliver_by_size_def cmd_defs set_user_data_def premium_keyboard_def
        wD_def p_def)
  have deliver: "R = bind (send_media_file env upd st p mb r media_type)
                     (\<lambda>_. cleanup_downloaded env p) wD"
    if "mb \<le> REGULAR_USER_LIMIT_MB
          \<or> (REGULAR_USER_LIMIT_MB < mb \<and> mb \<le> PREMIUM_USER_LIMIT_MB \<and> premium)"
    using that
    by (auto simp add: R_eq deliver_by_size_def bind_def ret_def p_def
        REGULAR_USER_LIMIT_MB_def PREMIUM_USER_LIMIT_MB_def split: prod.splits sum.splits)
  have sent: "users (snd R) = users w1
                     \<and> (\<exists>rest. trace (snd R) = trace w1 @ [Tg (EditText st DownloadComplete []),
                                    Tg (send_action media_type p cap r)] @ rest
                                \<and> sends_of rest = [])"
    if d: "R = bind (send_media_file env upd st p mb r media_type)
                     (\<lambda>_. cleanup_downloaded env p) wD"
      and cap: "make_caption r mb = Inr cap" for cap
  proof (cases "transport env (length (trace wD)) (send_action media_type p cap r)")
    case None
    define wS where "wS = wD \<lparr> trace := trace wD @ [Tg (send_action media_type p cap r),
                                                      Tg (DeleteMessage st)] \<rparr>"
    have "R = cleanup_downloaded env p wS"
      using None d send_media_file_message [OF msg cap fsD tx, of st media_type]
      by (simp add: bind_def wS_def)
    moreover obtain w' rest where "cleanup_downloaded env p wS = (Inr (), w')"
        "users w' = users wS" "trace w' = trace wS @ rest" "sends_of rest = []"
      using cleanup_downloaded_total [of env p wS] by blast
    ultimately have "users (snd R) = users w1"
      and "trace (snd R) = trace w1 @ [Tg (EditText st DownloadComplete []),
             Tg (send_action media_type p cap r)] @ (Tg (DeleteMessage st) # rest)"
      and "sends_of (Tg (DeleteMessage st) # rest) = []"
      by (simp_all add: wS_def wD_def)
    then show ?thesis by blast
  next
    case (Some e)
    have "R = (Inl e, wD \<lparr> trace := trace wD @ [Tg (send_action media_type p cap r)] \<rparr>)"
      using Some d send_media_file_message [OF msg cap fsD tx, of st media_type]
      by (simp add: bind_def)
    then have "users (snd R) = users w1"
      and "trace (snd R) = trace w1 @ [Tg (EditText st DownloadComplete []),
             Tg (send_action media_type p cap r)] @ []"
      by (simp_all add: wD_def)
    then show ?thesis by (metis sends_of.simps(1))
  qed
  show ?thesis
    unfolding Let_def
    using reject confirm deliver sent
    unfolding p_def mb_def wD_def R_def
    by blast
qed

lemma size_routing_example:
  "(\<forall>n a. transport env0 n a = None)
   \<and> payload (text_from 222 ''https://example.com/huge'') = TextMessage ''https://example.com/huge''
   \<and> download_media env0 cfg0 ''https://example.com/huge'' ''best'' ''video'' None world0
       = (Inr (Success (result0 ''huge'')), downloaded ''https://example.com/huge'' ''huge'' (3000 * MB))
   \<and> fs (downloaded ''https://example.com/huge'' ''huge'' (3000 * MB)) (res_filepath (result0 ''huge''))
       = Some (3000 * MB)
   \<and> (of_nat (3000 * MB) / (1024 * 1024) :: rat) > PREMIUM_USER_LIMIT_MB
   \<and> fst (handle_message_try env0 cfg0 (text_from 222 ''https://example.com/huge'') 0
            ''https://example.com/huge'' ''best'' ''video'' False world0) = Inr ()
   \<and> sends_of (trace (snd (handle_message_try env0 cfg0 (text_from 222 ''https://example.com/huge'') 0
            ''https://example.com/huge'' ''best'' ''video'' False world0))) = []
   \<and> download_media env0 cfg0 ''https://example.com/large'' ''best'' ''video'' None world0
       = (Inr (Success (result0 ''large'')), downloaded ''https://example.com/large'' ''large'' (120 * MB))
   \<and> REGULAR_USER_LIMIT_MB < (of_nat (120 * MB) / (1024 * 1024) :: rat)
   \<and> (of_nat (120 * MB) / (1024 * 1024) :: rat) \<le> PREMIUM_USER_LIMIT_MB
   \<and> handle_message_try env0 cfg0 (text_from 222 ''https://example.com/large'') 0
            ''https://example.com/large'' ''best'' ''video'' False world0
       = (Inr (),
          world0 \<lparr> fs := [''./downloads/large.mp4'' \<mapsto> 120 * MB],
                   trace := [Probe ''https://example.com/large'', Download ''https://example.com/large'',
                             Tg (EditText 0 DownloadComplete []),
                             Tg (EditText 0 (LargeFileDetected 120)
                                   [[(''I have Premium'', ''premium_yes|https://example.com/large|best|video''),
                                     (''No Premium'', ''premium_no'')]])],
                   users := (users world0)(222 := empty_user_data \<lparr> ud_pending_file :=
                               Some \<lparr> pf_filepath = ''./downloads/large.mp4'', pf_file_size_mb = 120,
                                      pf_result = result0 ''large'', pf_media_type = ''video'' \<rparr> \<rparr>) \<rparr>)
   \<and> sends_of (trace (snd (handle_message_try env0 cfg0 (text_from 222 ''https://example.com/large'') 0
            ''https://example.com/large'' ''best'' ''video'' True world0)))
       = [ReplyVideo ''./downloads/large.mp4'' (caption0 ''large'' 120)]
   \<and> download_media env0 cfg0 ''https://example.com/small'' ''best'' ''video'' None world0
       = (Inr (Success (result0 ''small'')), downloaded ''https://example.com/small'' ''small'' (10 * MB))
   \<and> (of_nat (10 * MB) / (1024 * 1024) :: rat) \<le> REGULAR_USER_LIMIT_MB
   \<and> sends_of (trace (snd (handle_message_try env0 cfg0 (text_from 222 ''https://example.com/small'') 0
            ''https://example.com/small'' ''best'' ''video'' False world0)))
       = [ReplyVideo ''./downloads/small.mp4'' (caption0 ''small'' 10)]"
proof -
  have tx: "\<forall>n a. \<not> is_send a \<longrightarrow> transport env0 n a = None"
    using env0_accepts by simp
  have msg: "payload (text_from 222 u) = TextMessage u" for u
    by (simp add: example_defs)
  have n1: "(of_nat (3000 * MB) / (1024 * 1024) :: rat) = 3000"
    and n2: "(of_nat (120 * MB) / (1024 * 1024) :: rat) = 120"
    and n3: "(of_nat (10 * MB) / (1024 * 1024) :: rat) = 10"
    by (simp_all add: MB_def)
  have huge: "fst (handle_message_try env0 cfg0 (text_from 222 ''https://example.com/huge'') 0
            ''https://example.com/huge'' ''best'' ''video'' False world0) = Inr ()
     \<and> sends_of (trace (snd (handle_message_try env0 cfg0 (text_from 222 ''https://example.com/huge'') 0
            ''https://example.com/huge'' ''best'' ''video'' False world0))) = []"
    using size_routing [OF download_huge size_downloaded tx msg [of "''https://example.com/huge''"], where st = 0 and premium = False]
    by (auto simp add: Let_def MB_def PREMIUM_USER_LIMIT_MB_def sends_of_append downloaded_def)
  have large: "handle_message_try env0 cfg0 (text_from 222 ''https://example.com/large'') 0
            ''https://example.com/large'' ''best'' ''video'' False world0
       = (Inr (),
          world0 \<lparr> fs := [''./downloads/large.mp4'' \<mapsto> 120 * MB],
                   trace := [Probe ''https://example.com/large'', Download ''https://example.com/large'',
                             Tg (EditText 0 DownloadComplete []),
                             Tg (EditText 0 (LargeFileDetected 120)
                                   [[(''I have Premium'', ''premium_yes|https://example.com/large|best|video''),
                                     (''No Premium'', ''premium_no'')]])],
                   users := (users world0)(222 := empty_user_data \<lparr> ud_pending_file :=
                               Some \<lparr> pf_filepath = ''./downloads/large.mp4'', pf_file_size_mb = 120,
                                      pf_result = result0 ''large'', pf_media_type = ''video'' \<rparr> \<rparr>) \<rparr>)"
    using size_routing [OF download_large size_downloaded tx msg [of "''https://example.com/large''"], where st = 0 and premium = False]
    by (simp add: Let_def MB_def PREMIUM_USER_LIMIT_MB_def REGULAR_USER_LIMIT_MB_def downloaded_def
        result0_def world0_def text_from_def)
  have large_premium: "sends_of (trace (snd (handle_message_try env0 cfg0 (text_from 222 ''https://example.com/large'') 0
            ''https://example.com/large'' ''best'' ''video'' True world0)))
       = [ReplyVideo ''./downloads/large.mp4'' (caption0 ''large'' 120)]"
    using size_routing [OF download_large size_downloaded tx msg [of "''https://example.com/large''"], where st = 0 and premium = True] caption_result0 [of "''large''" 120]
    by (auto simp add: Let_def MB_def PREMIUM_USER_LIMIT_MB_def REGULAR_USER_LIMIT_MB_def sends_of_append
        downloaded_def send_action_def result0_def world0_def)
  have small: "sends_of (trace (snd (handle_message_try env0 cfg0 (text_from 222 ''https://example.com/small'') 0
            ''https://example.com/small'' ''best'' ''video'' False world0)))
       = [ReplyVideo ''./downloads/small.mp4'' (caption0 ''small'' 10)]"
    using size_routing [OF download_small size_downloaded tx msg [of "''https://example.com/small''"], where st = 0 and premium = False] caption_result0 [of "''small''" 10]
    by (auto simp add: Let_def MB_def PREMIUM_USER_LIMIT_MB_def REGULAR_USER_LIMIT_MB_def sends_of_append
        downloaded_def send_action_def result0_def world0_def)
  show ?thesis
    using env0_accepts msg download_huge download_large download_small size_downloaded
      huge large large_premium small
    by (simp add: MB_def PREMIUM_USER_LIMIT_MB_def REGULAR_USER_LIMIT_MB_def)
qed

section \<open>The answer to the premium question\<close>


text \<open>
  The data of the first button is \<^verbatim>\<open>premium_yes|url|quality|media_type\<close>, while the
  handler compares the data with \<^verbatim>\<open>premium_yes\<close> itself: a press of the button is
  answered and otherwise ignored.
\<close>

lemma premium_yes_button_data_ignored:
  assumes "payload upd = CallbackQuery (''premium_yes|'' @ url @ ''|'' @ quality @ ''|'' @ media_type) m"
  shows "button_callback env upd w =
           ((case transport env (length (trace w)) AnswerQuery of None \<Rightarrow> Inr () | Some e \<Rightarrow> Inl e),
            w \<lparr> trace := trace w @ [Tg AnswerQuery] \<rparr>)"
  using assms
  by (simp add: button_callback_def startswith_def cmd_defs split: option.splits)

text \<open>
  Had the data been \<^verbatim>\<open>premium_yes\<close> itself, the delivery would fail where
  \<^verbatim>\<open>hasattr(update, 'message')\<close> holds: \<^verbatim>\<open>update.message\<close> is \<open>None\<close> for a button
  press. The user is told that the upload failed; the file and the pending file stay.
\<close>

lemma premium_yes_exact_data_upload_fails:
  "run_updates env0 cfg0
       [text_from 222 ''https://example.com/large'', press_from 222 ''premium_yes'' 0] world0
     = \<lparr> fs = [''./downloads/large.mp4'' \<mapsto> 120 * MB],
         users = (\<lambda>u. empty_user_data)(222 := empty_user_data
                   \<lparr> ud_has_premium := Some True,
                     ud_pending_file :=
                       Some \<lparr> pf_filepath = ''./downloads/large.mp4'', pf_file_size_mb = 120,
                              pf_result = result0 ''large'', pf_media_type = ''video'' \<rparr> \<rparr>),
         trace = [Tg (ReplyText (Processing ''video'' ''https://example.com/large'' ''best'') []),
                  Tg (SendChatAction 222 ''upload_video''),
                  Probe ''https://example.com/large'', Download ''https://example.com/large'',
                  Tg (EditText 0 DownloadComplete []),
                  Tg (EditText 0 (LargeFileDetected 120)
                        [[(''I have Premium'', ''premium_yes|https://example.com/large|best|video''),
                          (''No Premium'', ''premium_no'')]]),
                  Tg AnswerQuery,
                  Tg (EditText 0 Uploading []),
                  Tg (ReplyText (UploadFailed ''NoneType object has no attribute reply'') [])] \<rparr>"
  by (simp add: example_defs example_evals handler_defs download_defs cmd_defs result0_def Let_def)

text \<open>
  Claim C2, the first button, on the code. A large download leaves a pending file and
  the question; the user presses "I have Premium", the button the handler made. The
  claim has the file delivered, then removed, and the pending file cleared. The code
  answers the press and does nothing else: no send, no removal, the file stays on the
  disk and the pending file stays in the user data.
\<close>

theorem premium_yes_button_resolves_nothing:
  "snd (hd (hd (premium_keyboard ''https://example.com/large'' ''best'' ''video'')))
     = ''premium_yes|https://example.com/large|best|video''
   \<and> run_updates env0 cfg0
       [text_from 222 ''https://example.com/large'',
        press_from 222 ''premium_yes|https://example.com/large|best|video'' 0] world0
     = \<lparr> fs = [''./downloads/large.mp4'' \<mapsto> 120 * MB],
         users = (\<lambda>u. empty_user_data)(222 := empty_user_data \<lparr> ud_pending_file :=
                   Some \<lparr> pf_filepath = ''./downloads/large.mp4'', pf_file_size_mb = 120,
                          pf_result = result0 ''large'', pf_media_type = ''video'' \<rparr> \<rparr>),
         trace = [Tg (ReplyText (Processing ''video'' ''https://example.com/large'' ''best'') []),
                  Tg (SendChatAction 222 ''upload_video''),
                  Probe ''https://example.com/large'', Download ''https://example.com/large'',
                  Tg (EditText 0 DownloadComplete []),
                  Tg (EditText 0 (LargeFileDetected 120)
                        [[(''I have Premium'', ''premium_yes|https://example.com/large|best|video''),
                          (''No Premium'', ''premium_no'')]]),
                  Tg AnswerQuery] \<rparr>"
  by (simp add: example_defs example_evals handler_defs download_defs cmd_defs result0_def Let_def)

section \<open>The file after a refused send\<close>

text \<open>A removal the system refuses is logged and goes no further.\<close>

lemma refused_removal_is_logged:
  assumes "fs w p = Some b" and "remove_refused env p = Some e"
  shows "cleanup_downloaded env p w =
           (Inr (), w \<lparr> trace := trace w @ [Remove p, Log (LogRemoveError (str_exn e))] \<rparr>)"
  using assms
  by (simp add: cleanup_downloaded_def remove_if_exists_def os_path_exists_def os_remove_def
      try_except_def emit_def Let_def)

lemma handle_message_try_after_download:
  assumes dl: "download_media env cfg url quality media_type None w = (Inr (Success r), w1)"
      and sz: "fs w1 (res_filepath r) = Some bytes"
      and tx: "\<forall>n a. \<not> is_send a \<longrightarrow> transport env n a = None"
  shows "handle_message_try env cfg upd st url quality media_type premium w =
           bind (deliver_by_size env upd st url quality media_type premium r
                   (of_nat bytes / (1024 * 1024)))
             (\<lambda>goes_on. if goes_on then cleanup_downloaded env (res_filepath r) else ret ())
             (w1 \<lparr> trace := trace w1 @ [Tg (EditText st DownloadComplete [])] \<rparr>)"
proof -
  have "tg env (EditText st DownloadComplete []) w1 =
          (Inr (), w1 \<lparr> trace := trace w1 @ [Tg (EditText st DownloadComplete [])] \<rparr>)"
    using tx by (simp add: tg_def)
  then show ?thesis
    using dl sz by (simp add: handle_message_try_def bind_def os_path_getsize_def)
qed

text \<open>
  When the transport refuses the send of a file of at most 50 MB, the \<^verbatim>\<open>try\<close> block
  raises right after the send: the removal that ends the block is not reached.
\<close>

lemma refused_send_skips_removal:
  assumes dl: "download_media env cfg url quality media_type None w = (Inr (Success r), w1)"
      and sz: "fs w1 (res_filepath r) = Some bytes"
      and tx: "\<forall>n a. \<not> is_send a \<longrightarrow> transport env n a = None"
      and msg: "payload upd = TextMessage t"
      and small: "of_nat bytes / (1024 * 1024) \<le> REGULAR_USER_LIMIT_MB"
      and cap: "make_caption r (of_nat bytes / (1024 * 1024)) = Inr cap"
      and refused: "transport env (Suc (length (trace w1)))
                      (send_action media_type (res_filepath r) cap r) = Some e"
  shows "handle_message_try env cfg upd st url quality media_type premium w =
           (Inl e, w1 \<lparr> trace := trace w1 @ [Tg (EditText st DownloadComplete []),
                           Tg (send_action media_type (res_filepath r) cap r)] \<rparr>)"
proof -
  define wD where "wD = w1 \<lparr> trace := trace w1 @ [Tg (EditText st DownloadComplete [])] \<rparr>"
  have fsD: "fs wD (res_filepath r) = Some bytes"
    using sz by (simp add: wD_def)
  have sent: "send_media_file env upd st (res_filepath r) (of_nat bytes / (1024 * 1024)) r media_type wD
          = (Inl e, wD \<lparr> trace := trace wD @ [Tg (send_action media_type (res_filepath r) cap r)] \<rparr>)"
    using send_media_file_message [OF msg cap fsD tx, of st media_type] refused
    by (simp add: wD_def)
  have "deliver_by_size env upd st url quality media_type premium r (of_nat bytes / (1024 * 1024)) wD
          = (Inl e, wD \<lparr> trace := trace wD @ [Tg (send_action media_type (res_filepath r) cap r)] \<rparr>)"
    using small sent
    by (simp add: deliver_by_size_def bind_def REGULAR_USER_LIMIT_MB_def PREMIUM_USER_LIMIT_MB_def)
  then show ?thesis
    using handle_message_try_after_download [OF dl sz tx, where upd = upd and st = st and premium = premium]
    by (simp add: bind_def wD_def)
qed

text \<open>
  Claim C3, the refused send, on the code. A file of 10 MB is downloaded and the
  transport refuses the send. The claim has the removal of the file attempted on this
  path too. The handler logs the error and edits the status message; it asks for no
  removal, and the file stays on the disk.
\<close>

theorem refused_send_leaves_file:
  "handle_message env_refusing_sends cfg0 (text_from 222 ''https://example.com/small'') world0
     = (Inr (),
        \<lparr> fs = [''./downloads/small.mp4'' \<mapsto> 10 * MB],
          users = (\<lambda>u. empty_user_data),
          trace = [Tg (ReplyText (Processing ''video'' ''https://example.com/small'' ''best'') []),
                   Tg (SendChatAction 222 ''upload_video''),
                   Probe ''https://example.com/small'', Download ''https://example.com/small'',
                   Tg (EditText 0 DownloadComplete []),
                   Tg (ReplyVideo ''./downloads/small.mp4'' (caption0 ''small'' 10)),
                   Log (LogProcessingError ''timed out''),
                   Tg (EditText 0 (ErrorOccurred ''timed out'') [])] \<rparr>)
   \<and> removes_of (trace (snd (handle_message env_refusing_sends cfg0
         (text_from 222 ''https://example.com/small'') world0))) = []"
  by (simp add: example_defs example_evals handler_defs download_defs cmd_defs caption0_def Let_def)

section \<open>A second large download before the answer\<close>

text \<open>
  Claim C4, on the code. Two large downloads follow each other before the user answers
  the first question. The claim has the first file removed before the pending file is
  overwritten. The code overwrites it and removes nothing: both files are on the disk
  and only the second is pending. After the answer to the second question the first
  file is still on the disk and nothing refers to it.
\<close>

theorem overwritten_pending_file_leaks:
  "run_updates env0 cfg0
       [text_from 222 ''https://example.com/large'', text_from 222 ''https://example.com/other''] world0
     = \<lparr> fs = [''./downloads/large.mp4'' \<mapsto> 120 * MB, ''./downloads/other.mp4'' \<mapsto> 130 * MB],
         users = (\<lambda>u. empty_user_data)(222 := empty_user_data \<lparr> ud_pending_file :=
                   Some \<lparr> pf_filepath = ''./downloads/other.mp4'', pf_file_size_mb = 130,
                          pf_result = result0 ''other'', pf_media_type = ''video'' \<rparr> \<rparr>),
         trace = [Tg (ReplyText (Processing ''video'' ''https://example.com/large'' ''best'') []),
                  Tg (SendChatAction 222 ''upload_video''),
                  Probe ''https://example.com/large'', Download ''https://example.com/large'',
                  Tg (EditText 0 DownloadComplete []),
                  Tg (EditText 0 (LargeFileDetected 120)
                        [[(''I have Premium'', ''premium_yes|https://example.com/large|best|video''),
                          (''No Premium'', ''premium_no'')]]),
                  Tg (ReplyText (Processing ''video'' ''https://example.com/other'' ''best'') []),
                  Tg (SendChatAction 222 ''upload_video''),
                  Probe ''https://example.com/other'', Download ''https://example.com/other'',
                  Tg (EditText 6 DownloadComplete []),
                  Tg (EditText 6 (LargeFileDetected 130)
                        [[(''I have Premium'', ''premium_yes|https://example.com/other|best|video''),
                          (''No Premium'', ''premium_no'')]])] \<rparr>
   \<and> fs (run_updates env0 cfg0
         [text_from 222 ''https://example.com/large'', text_from 222 ''https://example.com/other'',
          press_from 222 ''premium_no'' 6] world0)
       = [''./downloads/large.mp4'' \<mapsto> 120 * MB]
   \<and> ud_pending_file (users (run_updates env0 cfg0
         [text_from 222 ''https://example.com/large'', text_from 222 ''https://example.com/other'',
          press_from 222 ''premium_no'' 6] world0) 222) = None
   \<and> removes_of (trace (run_updates env0 cfg0
         [text_from 222 ''https://example.com/large'', text_from 222 ''https://example.com/other'',
          press_from 222 ''premium_no'' 6] world0)) = [''./downloads/other.mp4'']"
  by (simp add: example_defs example_evals handler_defs download_defs cmd_defs result0_def Let_def
      fun_upd_twist)

section \<open>A duration that is not a whole number\<close>

text \<open>
  The caption formats \<^verbatim>\<open>result['duration']%60\<close> with \<^verbatim>\<open>:02d\<close>. When the engine reports
  a float, the format raises before the file is opened or sent: the \<^verbatim>\<open>try\<close> block
  of the handler stops right after the "download complete" edit.
\<close>

lemma float_duration_raises_before_send:
  assumes dl: "download_media env cfg url quality media_type None w = (Inr (Success r), w1)"
      and sz: "fs w1 (res_filepath r) = Some bytes"
      and tx: "\<forall>n a. \<not> is_send a \<longrightarrow> transport env n a = None"
      and small: "of_nat bytes / (1024 * 1024) \<le> REGULAR_USER_LIMIT_MB"
      and dur: "res_duration r = PFloat x"
  shows "handle_message_try env cfg upd st url quality media_type premium w =
           (Inl (PyExn ''ValueError'' ''Unknown format code d for object of type float''),
            w1 \<lparr> trace := trace w1 @ [Tg (EditText st DownloadComplete [])] \<rparr>)"
proof -
  define wD where "wD = w1 \<lparr> trace := trace w1 @ [Tg (EditText st DownloadComplete [])] \<rparr>"
  have "send_media_file env upd st (res_filepath r) (of_nat bytes / (1024 * 1024)) r media_type wD
          = (Inl (PyExn ''ValueError'' ''Unknown format code d for object of type float''), wD)"
    using dur by (simp add: send_media_file_def make_caption_def bind_def lift_def)
  then have "deliver_by_size env upd st url quality media_type premium r (of_nat bytes / (1024 * 1024)) wD
          = (Inl (PyExn ''ValueError'' ''Unknown format code d for object of type float''), wD)"
    using small
    by (simp add: deliver_by_size_def bind_def REGULAR_USER_LIMIT_MB_def PREMIUM_USER_LIMIT_MB_def)
  then show ?thesis
    using handle_message_try_after_download [OF dl sz tx, where upd = upd and st = st and premium = premium]
    by (simp add: bind_def wD_def)
qed

text \<open>
  Claim C1, on the code. A file of 10 MB is downloaded with success; the engine reports
  a duration of 12.5 seconds. The size is at most 50 MB, so the claim has the file sent
  at once. The handler takes the delivery branch, and \<^verbatim>\<open>send_media_file\<close> raises
  while it formats the caption: no send is attempted, the user gets the error text, and
  the file stays on the disk.
\<close>

theorem small_file_with_float_duration_is_not_sent:
  "download_media env_float_duration cfg0 ''https://example.com/small'' ''best'' ''video'' None
       (world0 \<lparr> trace := [Tg (ReplyText (Processing ''video'' ''https://example.com/small'' ''best'') []),
                            Tg (SendChatAction 222 ''upload_video'')] \<rparr>)
     = (Inr (Success ((result0 ''small'') \<lparr> res_duration := PFloat (25 / 2) \<rparr>)),
        world0 \<lparr> fs := [''./downloads/small.mp4'' \<mapsto> 10 * MB],
                 trace := [Tg (ReplyText (Processing ''video'' ''https://example.com/small'' ''best'') []),
                           Tg (SendChatAction 222 ''upload_video''),
                           Probe ''https://example.com/small'', Download ''https://example.com/small''] \<rparr>)
   \<and> (of_nat (10 * MB) / (1024 * 1024) :: rat) \<le> REGULAR_USER_LIMIT_MB
   \<and> handle_message env_float_duration cfg0 (text_from 222 ''https://example.com/small'') world0
     = (Inr (),
        \<lparr> fs = [''./downloads/small.mp4'' \<mapsto> 10 * MB],
          users = (\<lambda>u. empty_user_data),
          trace = [Tg (ReplyText (Processing ''video'' ''https://example.com/small'' ''best'') []),
                   Tg (SendChatAction 222 ''upload_video''),
                   Probe ''https://example.com/small'', Download ''https://example.com/small'',
                   Tg (EditText 0 DownloadComplete []),
                   Log (LogProcessingError ''Unknown format code d for object of type float''),
                   Tg (EditText 0 (ErrorOccurred ''Unknown format code d for object of type float'') [])] \<rparr>)
   \<and> sends_of (trace (snd (handle_message env_float_duration cfg0
         (text_from 222 ''https://example.com/small'') world0))) = []"
  by (simp add: example_defs example_evals handler_defs download_defs cmd_defs result0_def Let_def)

section \<open>Commands and buttons under an allow-list\<close>















end
